theory Spec2Isabelle
  imports Main
begin

section \<open>The duel event of the chat bot\<close>

text \<open>
  A shallow embedding of the class \<^verbatim>\<open>DuelEvent\<close> (events/duelEvent.ts; in the sources
  it is the second document of src/server/src/commands/commandScripts/index.ts) and of the
  two chat commands that drive it, \<^verbatim>\<open>AcceptCommand\<close> (src/unnamed/part_007) and
  \<^verbatim>\<open>WeaponCommand\<close> (src/unnamed/part_006).

  The event object is a record; everything it touches outside itself (the point
  balances kept by the user service, the chat channel, the whispers, the pending delayed
  callbacks and the registration with the event service) is the rest of a \<open>World\<close>
  record, passed in and returned updated. A JavaScript \<^verbatim>\<open>TypeError\<close> (reading a
  property of \<^verbatim>\<open>undefined\<close>, as \<^verbatim>\<open>this.participants[1].weapon\<close> does when
  there is one participant only) is a value: the result \<open>Inl (TypeError, w)\<close> carries
  the world as it was when the exception was thrown.
\<close>

subsection \<open>Data\<close>

datatype EventState = Open | BoardingCompleted | Ended

text \<open>\<^verbatim>\<open>DuelWeapon.None\<close> is written \<open>NoWeapon\<close> (\<open>None\<close> is the option constructor).\<close>

datatype DuelWeapon = NoWeapon | Rock | Paper | Scissors

record IUser =
  username :: string
  points :: int

text \<open>
  Modelled from the spec: the class \<^verbatim>\<open>DuelEventParticipant\<close> is not among the
  sources. Its constructor is called as \<^verbatim>\<open>new DuelEventParticipant(user, wager, accepted)\<close>;
  the weapon of a fresh participant is \<^verbatim>\<open>DuelWeapon.None\<close>. The participant's wager is
  the field \<open>participant_wager\<close> (\<open>wager\<close> is the event's).
\<close>

record DuelEventParticipant =
  user :: IUser
  participant_wager :: int
  accepted :: bool
  weapon :: DuelWeapon

definition new_DuelEventParticipant :: "IUser \<Rightarrow> int \<Rightarrow> bool \<Rightarrow> DuelEventParticipant" where
  "new_DuelEventParticipant u w a =
     \<lparr>user = u, participant_wager = w, accepted = a, weapon = NoWeapon\<rparr>"

record DuelEvent =
  state :: EventState
  participants :: "DuelEventParticipant list"
  wager :: int
  sendMessage :: "string \<Rightarrow> string list"

text \<open>An event of the registry is a duel or an event of another class (\<^verbatim>\<open>instanceof\<close>).\<close>

datatype ParticipationEvent = Duel DuelEvent | OtherEvent EventState

text \<open>A pending one-shot delayed callback, with its delay in milliseconds.\<close>

datatype Timer = ParticipationTimer nat | WeaponChoiceTimer nat | CooldownTimer nat

datatype error = TypeError

record World =
  duel :: DuelEvent
  balances :: "string \<Rightarrow> int"
  chat :: "string list"
  whispers :: "(string \<times> DuelWeapon) list"
  timers :: "Timer list"
  running :: bool

type_synonym result = "(error \<times> World) + World"

definition DuelParticipationPeriod :: nat where
  "DuelParticipationPeriod = 60 * 1000"

definition DuelCooldownPeriod :: nat where
  "DuelCooldownPeriod = 2 * 60 * 1000"

subsection \<open>Strings and numbers of the host language\<close>

text \<open>
  \<^verbatim>\<open>String.prototype.toLowerCase\<close> on the ASCII letters; user names of the chat
  service are ASCII.
\<close>

definition lower_char :: "char \<Rightarrow> char" where
  "lower_char c =
     (let n = (of_char c :: nat) in if 65 \<le> n \<and> n \<le> 90 then char_of (n + 32) else c)"

definition toLowerCase :: "string \<Rightarrow> string" where
  "toLowerCase s = map lower_char s"

text \<open>A number in a template literal: the decimal digits of an integer.\<close>

function string_of_nat :: "nat \<Rightarrow> string" where
  "string_of_nat n =
     (if n < 10 then [''0123456789'' ! n]
      else string_of_nat (n div 10) @ [''0123456789'' ! (n mod 10)])"
  by pat_completeness auto
termination
  by (relation "measure id") auto

definition string_of_int :: "int \<Rightarrow> string" where
  "string_of_int i =
     (if i < 0 then CHR ''-'' # string_of_nat (nat (- i)) else string_of_nat (nat i))"

text \<open>
  The numbers of the host language are IEEE 754 doubles. An integer of magnitude up to
  \<open>2^53\<close> is a double, and the sums, differences and doublings of such integers are
  exact while they stay in this range, so points and wagers are integers here. The one
  expression of the event that leaves the integers is
  \<^verbatim>\<open>Math.round(this.wager * 0.1)\<close>.

  The literal \<^verbatim>\<open>0.1\<close> is the double \<open>3602879701896397 / 2^55\<close>, a little above a
  tenth. The product of two doubles is the double nearest to their exact product, and
  of two nearest ones the one whose significand is even; the significand of a double
  has 53 bits. A non-negative double that is a multiple of \<open>2^-55\<close> is kept as its
  numerator over \<open>2^55\<close>, a natural number: the exact product of an integer \<open>w\<close> and
  \<^verbatim>\<open>0.1\<close> is \<open>w * 3602879701896397\<close>. (The wagers of a duel are far from the
  range in which a product overflows.)

  \<open>excess_bits n\<close> is the number of bits \<open>n\<close> has beyond 53, \<open>round_half_even n s\<close>
  is \<open>n / 2^s\<close> rounded to the nearest integer, a half to the even one, and
  \<open>round_double n\<close> is the nearest number of at most 53 significant bits.
\<close>

function excess_bits :: "nat \<Rightarrow> nat" where
  "excess_bits n = (if n < 2 ^ 53 then 0 else Suc (excess_bits (n div 2)))"
  by pat_completeness auto
termination
  by (relation "measure id") auto

declare excess_bits.simps [simp del]

definition round_half_even :: "nat \<Rightarrow> nat \<Rightarrow> nat" where
  "round_half_even n s =
     (let q = n div 2 ^ s; r = n mod 2 ^ s in
      if 2 * r < 2 ^ s then q
      else if 2 ^ s < 2 * r then q + 1
      else if even q then q else q + 1)"

definition round_double :: "nat \<Rightarrow> nat" where
  "round_double n = round_half_even n (excess_bits n) * 2 ^ excess_bits n"

text \<open>The double \<^verbatim>\<open>w * 0.1\<close> for an integer \<open>w\<close> that is not negative, over \<open>2^55\<close>.\<close>

definition double_times_tenth :: "nat \<Rightarrow> nat" where
  "double_times_tenth w = round_double (w * 3602879701896397)"

text \<open>
  \<^verbatim>\<open>Math.round(x)\<close> is the integer nearest to \<open>x\<close>, and of two nearest ones the
  greater: \<open>\<lfloor>x + 1 / 2\<rfloor>\<close>. Here \<open>x\<close> is given by its numerator over \<open>2^55\<close>.
\<close>

definition Math_round :: "int \<Rightarrow> int" where
  "Math_round x = (2 * x + 2 ^ 55) div 2 ^ 56"

text \<open>
  \<^verbatim>\<open>Math.round(this.wager * 0.1)\<close>. The product of a negative wager is the negative of
  the product of its magnitude. The spec's data model has the wager a non-negative
  integer; for a wager \<open>0 \<le> w < 2^52\<close> the result is \<open>(w + 5) div 10\<close>, the integer
  nearest to the tenth of the wager with a half rounded upwards (lemma
  \<open>Math_round_tenth_small\<close> below), and at \<open>w = 3 * 2^51\<close> it is not.
\<close>

definition Math_round_tenth :: "int \<Rightarrow> int" where
  "Math_round_tenth w =
     (if 0 \<le> w then Math_round (int (double_times_tenth (nat w)))
      else Math_round (- int (double_times_tenth (nat (- w)))))"

subsection \<open>Collaborators that are not among the sources\<close>

text \<open>
  Modelled from the spec: \<^verbatim>\<open>UserService.changeUserPoints(user, delta)\<close> and
  \<^verbatim>\<open>changeUsersPoints(users, delta)\<close> are not among the sources. The spec has them
  as the balance store's atomic increment of each named user's balance by \<open>delta\<close>.
  The store is keyed by user name.
\<close>

definition changeUserPoints :: "IUser \<Rightarrow> int \<Rightarrow> (string \<Rightarrow> int) \<Rightarrow> (string \<Rightarrow> int)" where
  "changeUserPoints u delta b = b (username u := b (username u) + delta)"

fun changeUsersPoints :: "IUser list \<Rightarrow> int \<Rightarrow> (string \<Rightarrow> int) \<Rightarrow> (string \<Rightarrow> int)" where
  "changeUsersPoints [] delta b = b"
| "changeUsersPoints (u # us) delta b = changeUsersPoints us delta (changeUserPoints u delta b)"

text \<open>
  \<open>chat\<close> is the sequence of messages the channel has received, oldest first.
  \<^verbatim>\<open>TwitchService.sendMessage(channel, msg)\<close> adds one. The event's own
  \<^verbatim>\<open>this.sendMessage(msg)\<close> calls the function held in its \<open>sendMessage\<close> field,
  which yields the messages that reach the channel.
\<close>

definition twitch_sendMessage :: "string \<Rightarrow> World \<Rightarrow> World" where
  "twitch_sendMessage m w = w\<lparr>chat := chat w @ [m]\<rparr>"

definition this_sendMessage :: "string \<Rightarrow> World \<Rightarrow> World" where
  "this_sendMessage m w = w\<lparr>chat := chat w @ sendMessage (duel w) m\<rparr>"

text \<open>
  Modelled from the spec: \<^verbatim>\<open>DuelCommand\<close> is not among the sources. The constructor
  of the event installs a \<open>sendMessage\<close> that does nothing; the command that starts an
  event replaces it by the channel's sender, as \<^verbatim>\<open>BankheistCommand\<close> does
  (\<^verbatim>\<open>bankheist.sendMessage = (msg) => this.twitchService.sendMessage(channel, msg)\<close>),
  so that all text the event produces is sent through the chat transport.
\<close>

definition to_channel :: "string \<Rightarrow> string list" where
  "to_channel msg = [msg]"

text \<open>
  \<^verbatim>\<open>TwitchService.sendWhisper(user.username, "Your current weapon is: " + weapon)\<close>, the
  one whisper of the sources. The strings of the enum \<^verbatim>\<open>DuelWeapon\<close> are not among the
  sources, so a whisper is kept as its addressee and the weapon it names.
\<close>

definition sendWhisper :: "string \<Rightarrow> DuelWeapon \<Rightarrow> World \<Rightarrow> World" where
  "sendWhisper name wp w = w\<lparr>whispers := whispers w @ [(name, wp)]\<rparr>"

text \<open>
  Modelled from the spec: the class \<^verbatim>\<open>EventService\<close> is not among the sources.
  \<^verbatim>\<open>stopEvent(event)\<close> removes the event at once, with no cooldown (a cancellation);
  \<^verbatim>\<open>stopEventStartCooldown(event)\<close> keeps it blocking new starts until the cooldown
  period has passed, then fires \<^verbatim>\<open>onCooldownComplete\<close> and removes it. After
  either the event is \<open>Ended\<close>: once settlement or cancellation has executed, the
  state is no longer \<open>Open\<close> or \<open>BoardingCompleted\<close>.
\<close>

definition stopEvent :: "World \<Rightarrow> World" where
  "stopEvent w = w\<lparr>duel := (duel w)\<lparr>state := Ended\<rparr>, running := False\<rparr>"

definition stopEventStartCooldown :: "World \<Rightarrow> World" where
  "stopEventStartCooldown w =
     w\<lparr>duel := (duel w)\<lparr>state := Ended\<rparr>,
       timers := timers w @ [CooldownTimer DuelCooldownPeriod]\<rparr>"

subsection \<open>The messages\<close>

text \<open>The template literals of duelEvent.ts and acceptCommand.ts, one function each.\<close>

definition msg_challenge :: "string \<Rightarrow> string \<Rightarrow> int \<Rightarrow> string" where
  "msg_challenge a b w =
     ''Sir '' @ a @ '' has challenged Sir '' @ b @ '' to a duel for '' @ string_of_int w
       @ '' chews! Sir '' @ b @ '', to accept this duel, type !accept''"

definition msg_open_duel :: "string \<Rightarrow> int \<Rightarrow> string" where
  "msg_open_duel a w =
     ''Sir '' @ a @ '' has issued an open duel with the wager of '' @ string_of_int w
       @ '' chews! Is there anyone who would !accept this challenge?''"

definition msg_not_answered :: "string \<Rightarrow> string" where
  "msg_not_answered a =
     ''Oh Sir '' @ a
       @ '', it appears your challenge has not been answered. The duel has been called off.''"

definition msg_did_not_answer :: "string \<Rightarrow> string \<Rightarrow> string" where
  "msg_did_not_answer a b =
     ''Oh Sir '' @ a @ '', it appears '' @ b
       @ '' did not answer your challenge. The duel has been called off.''"

definition msg_just_finished :: "string \<Rightarrow> string" where
  "msg_just_finished u =
     ''A duel has just finished @'' @ u
       @ ''. Please wait while we clean up the battleground.''"

definition msg_underway :: "string \<Rightarrow> string" where
  "msg_underway u =
     ''A duel is underway @'' @ u @ ''. Please wait for the current duel to finish.''"

definition msg_not_enough :: "string \<Rightarrow> string" where
  "msg_not_enough u = ''@'' @ u @ '' does not have enough chews!''"

definition msg_how_rude :: "string \<Rightarrow> string" where
  "msg_how_rude a =
     ''How rude, Sir '' @ a
       @ '', calling a duel and then not participating! The duel has been called off FeelsBadMan''"

definition msg_run_away :: "string \<Rightarrow> string" where
  "msg_run_away b =
     ''Despite accepting the duel, it appears Sir '' @ b
       @ '' has run away! The duel has been called off FeelsBadMan''"

definition msg_both_rock :: "string \<Rightarrow> string \<Rightarrow> string" where
  "msg_both_rock a b =
     ''Sir '' @ a @ '' and Sir '' @ b
       @ '' both threw Rock! They collide with such force they fuse to form nuclear isotope cozmium-322!''"

definition msg_both_paper :: "string \<Rightarrow> string \<Rightarrow> string" where
  "msg_both_paper a b =
     ''Sir '' @ a @ '' and Sir '' @ b
       @ '' both threw Paper! They combine into a paper airplane and fly away!''"

definition msg_both_scissors :: "string \<Rightarrow> string \<Rightarrow> string" where
  "msg_both_scissors a b =
     ''Sir '' @ a @ '' and Sir '' @ b
       @ '' both threw Scissors! They entangle and the audience is not quite sure if they're witnessing something indecent monkaS''"

definition msg_both_lose :: "int \<Rightarrow> string" where
  "msg_both_lose n = ''Both participants lose '' @ string_of_int n @ '' chews chewieWUT''"

definition msg_rock_wins :: "string \<Rightarrow> string \<Rightarrow> string" where
  "msg_rock_wins a b =
     ''Sir '' @ a @ '' threw Rock and absolutely smashed Sir '' @ b @ '''s Scissors!''"

definition msg_paper_wins :: "string \<Rightarrow> string \<Rightarrow> string" where
  "msg_paper_wins a b =
     ''Sir '' @ a @ '''s Paper covered Sir '' @ b
       @ '''s Rock. Hello darkness my old friend FeelsBadMan''"

definition msg_scissors_wins :: "string \<Rightarrow> string \<Rightarrow> string" where
  "msg_scissors_wins a b =
     ''Sir '' @ a @ '''s Scissors cuts Sir '' @ b @ '''s Paper into subatomic particles!''"

definition msg_wins :: "string \<Rightarrow> int \<Rightarrow> string" where
  "msg_wins a w = ''Sir '' @ a @ '' wins '' @ string_of_int w @ '' chews!''"

definition msg_cooldown_over :: string where
  "msg_cooldown_over =
     ''The duelgrounds are ready for the next battle! Settle your grievances today with !duel <target> <wager>''"

definition msg_time_to_duel :: "string \<Rightarrow> string \<Rightarrow> string" where
  "msg_time_to_duel a b =
     ''It's time to D-D-D-D-D-D-D-D-Duel! Sir '' @ a @ '', Sir '' @ b
       @ '', please whisper me your weapon of choice using !rock, !paper, or !scissors''"

subsection \<open>DuelEvent\<close>

text \<open>
  The constructor. The state a \<^verbatim>\<open>ParticipationEvent\<close> starts in is \<open>Open\<close> (the
  base class is not among the sources; the spec has \<open>Open\<close> as the phase an event
  solicits participants in). Its last statement is
  \<^verbatim>\<open>this.sendMessage = (x) => undefined\<close>.
\<close>

definition new_DuelEvent :: "IUser \<Rightarrow> IUser option \<Rightarrow> int \<Rightarrow> DuelEvent" where
  "new_DuelEvent initiatingUser targetUser w =
     (case targetUser of
        None \<Rightarrow>
          \<lparr>state = Open,
           participants = [new_DuelEventParticipant initiatingUser w True],
           wager = w,
           sendMessage = (\<lambda>x. [])\<rparr>
      | Some t \<Rightarrow>
          \<lparr>state = BoardingCompleted,
           participants =
             [new_DuelEventParticipant initiatingUser w True,
              new_DuelEventParticipant t w False],
           wager = w,
           sendMessage = (\<lambda>x. [])\<rparr>)"

definition start :: "World \<Rightarrow> result" where
  "start w =
     (case participants (duel w) of
        [] \<Rightarrow> Inl (TypeError, w)
      | [p0] \<Rightarrow>
          Inr (this_sendMessage (msg_open_duel (username (user p0)) (wager (duel w))) w)
      | p0 # p1 # _ \<Rightarrow>
          Inr (this_sendMessage
                 (msg_challenge (username (user p0)) (username (user p1)) (wager (duel w))) w))"

definition participationPeriodEnded :: "World \<Rightarrow> result" where
  "participationPeriodEnded w =
     (if state (duel w) = Open then
        (case participants (duel w) of
           [] \<Rightarrow> Inl (TypeError, w)
         | p0 # _ \<Rightarrow>
             Inr (stopEvent (this_sendMessage (msg_not_answered (username (user p0))) w)))
      else if state (duel w) = BoardingCompleted then
        (case participants (duel w) of
           p0 # p1 # _ \<Rightarrow>
             if \<not> accepted p1 then
               Inr (stopEvent
                      (this_sendMessage
                         (msg_did_not_answer (username (user p0)) (username (user p1))) w))
             else Inr w
         | _ \<Rightarrow> Inl (TypeError, w))
      else Inr w)"

definition checkForOngoingEvent :: "DuelEvent \<Rightarrow> ParticipationEvent \<Rightarrow> IUser \<Rightarrow> bool \<times> string" where
  "checkForOngoingEvent this runningEvent u =
     (case runningEvent of
        Duel d \<Rightarrow>
          if state d = Ended then (False, msg_just_finished (username u))
          else (False, msg_underway (username u))
      | OtherEvent _ \<Rightarrow> (True, ''''))"

definition same_user :: "IUser \<Rightarrow> DuelEventParticipant \<Rightarrow> bool" where
  "same_user u p = (toLowerCase (username (user p)) = toLowerCase (username u))"

definition getParticipant :: "DuelEvent \<Rightarrow> IUser \<Rightarrow> DuelEventParticipant option" where
  "getParticipant this u = find (same_user u) (participants this)"

definition hasParticipant :: "DuelEvent \<Rightarrow> IUser \<Rightarrow> bool" where
  "hasParticipant this u = (getParticipant this u \<noteq> None)"

text \<open>
  \<^verbatim>\<open>getParticipant\<close> returns a reference to the first matching element of the
  array; an assignment to a field of the reference changes that element.
\<close>

fun update_first :: "('a \<Rightarrow> bool) \<Rightarrow> ('a \<Rightarrow> 'a) \<Rightarrow> 'a list \<Rightarrow> 'a list" where
  "update_first P f [] = []"
| "update_first P f (x # xs) = (if P x then f x # xs else x # update_first P f xs)"

definition setWeapon :: "DuelEvent \<Rightarrow> IUser \<Rightarrow> DuelWeapon \<Rightarrow> DuelEvent \<times> bool" where
  "setWeapon this u wp =
     (case getParticipant this u of
        Some _ \<Rightarrow>
          (this\<lparr>participants :=
                  update_first (same_user u) (\<lambda>p. p\<lparr>weapon := wp\<rparr>) (participants this)\<rparr>,
           True)
      | None \<Rightarrow> (this, False))"

definition canAccept :: "DuelEvent \<Rightarrow> IUser \<Rightarrow> bool \<times> string" where
  "canAccept this u =
     (if points u < wager this then (False, msg_not_enough (username u)) else (True, ''''))"

text \<open>
  \<^verbatim>\<open>waitForWeaponChoice\<close> is asynchronous: the call runs up to
  \<^verbatim>\<open>await this.delay(60 * 1000)\<close>, which leaves a delayed callback pending;
  \<open>waitForWeaponChoice_resume\<close> is the rest of the body, run when the delay has passed.
\<close>

definition waitForWeaponChoice :: "World \<Rightarrow> World" where
  "waitForWeaponChoice w = w\<lparr>timers := timers w @ [WeaponChoiceTimer (60 * 1000)]\<rparr>"

definition accept :: "World \<Rightarrow> IUser \<Rightarrow> World \<times> (bool \<times> string)" where
  "accept w u =
     (case canAccept (duel w) u of
        (True, msg) \<Rightarrow>
          (let d1 = (duel w)\<lparr>state := BoardingCompleted\<rparr>;
               d2 = (case getParticipant d1 u of
                       None \<Rightarrow>
                         d1\<lparr>participants :=
                              participants d1 @ [new_DuelEventParticipant u (wager d1) True]\<rparr>
                     | Some _ \<Rightarrow>
                         d1\<lparr>participants :=
                              update_first (same_user u) (\<lambda>p. p\<lparr>accepted := True\<rparr>)
                                (participants d1)\<rparr>);
               w1 = w\<lparr>duel := d2,
                      balances :=
                        changeUsersPoints (map user (participants d2)) (- wager d2) (balances w)\<rparr>
           in (waitForWeaponChoice w1, (True, '''')))
      | (False, msg) \<Rightarrow> (w, (False, msg)))"

definition returnChews :: "World \<Rightarrow> World" where
  "returnChews w =
     w\<lparr>balances :=
         changeUsersPoints (map user (participants (duel w))) (wager (duel w)) (balances w)\<rparr>"

definition startDuel :: "World \<Rightarrow> result" where
  "startDuel w0 =
     (case participants (duel w0) of
        p0 # p1 # _ \<Rightarrow>
          (let w = stopEventStartCooldown w0 in
           if weapon p0 = weapon p1 then
             (let w1 = (case weapon p0 of
                          Rock \<Rightarrow>
                            this_sendMessage
                              (msg_both_rock (username (user p0)) (username (user p1))) w
                        | Paper \<Rightarrow>
                            this_sendMessage
                              (msg_both_paper (username (user p0)) (username (user p1))) w
                        | Scissors \<Rightarrow>
                            this_sendMessage
                              (msg_both_scissors (username (user p0)) (username (user p1))) w
                        | NoWeapon \<Rightarrow> w);
                  chewsLost = Math_round_tenth (wager (duel w1));
                  w2 = this_sendMessage (msg_both_lose chewsLost) w1
              in Inr (w2\<lparr>balances :=
                           changeUsersPoints (map user (participants (duel w2)))
                             (wager (duel w2) - chewsLost) (balances w2)\<rparr>))
           else
             (let (winner, loser) =
                    (if (weapon p0 = Paper \<and> weapon p1 = Rock)
                        \<or> (weapon p0 = Rock \<and> weapon p1 = Scissors)
                        \<or> (weapon p0 = Scissors \<and> weapon p1 = Paper)
                     then (p0, p1) else (p1, p0));
                  w1 = w\<lparr>balances :=
                           changeUserPoints (user winner) (wager (duel w) * 2) (balances w)\<rparr>;
                  w2 = (case weapon winner of
                          Rock \<Rightarrow>
                            this_sendMessage
                              (msg_rock_wins (username (user winner)) (username (user loser))) w1
                        | Paper \<Rightarrow>
                            this_sendMessage
                              (msg_paper_wins (username (user winner)) (username (user loser))) w1
                        | Scissors \<Rightarrow>
                            this_sendMessage
                              (msg_scissors_wins (username (user winner)) (username (user loser)))
                              w1
                        | NoWeapon \<Rightarrow> w1)
              in Inr (this_sendMessage (msg_wins (username (user winner)) (wager (duel w2))) w2)))
      | _ \<Rightarrow> Inl (TypeError, w0))"

definition waitForWeaponChoice_resume :: "World \<Rightarrow> result" where
  "waitForWeaponChoice_resume w =
     (case participants (duel w) of
        [] \<Rightarrow> Inl (TypeError, w)
      | p0 # rest \<Rightarrow>
          if weapon p0 = NoWeapon then
            Inr (returnChews
                   (this_sendMessage (msg_how_rude (username (user p0))) (stopEvent w)))
          else
            (case rest of
               [] \<Rightarrow> Inl (TypeError, w)
             | p1 # _ \<Rightarrow>
                 if weapon p1 = NoWeapon then
                   Inr (returnChews
                          (this_sendMessage (msg_run_away (username (user p1))) (stopEvent w)))
                 else startDuel w))"

definition onCooldownComplete :: "World \<Rightarrow> World" where
  "onCooldownComplete w = this_sendMessage msg_cooldown_over w"

subsection \<open>EventService\<close>

text \<open>
  Modelled from the spec: \<^verbatim>\<open>EventService.startEvent(event, initiatingUser)\<close> is not
  among the sources. It returns a rejection string if the candidate's
  \<^verbatim>\<open>checkForOngoingEvent\<close>, checked against every currently active event, vetoes
  the start; otherwise it registers the event, calls its \<^verbatim>\<open>start()\<close> and begins the
  participation timer. \<open>runningEvents\<close> is the registry as the call finds it.
\<close>

fun first_veto :: "DuelEvent \<Rightarrow> IUser \<Rightarrow> ParticipationEvent list \<Rightarrow> string option" where
  "first_veto this u [] = None"
| "first_veto this u (e # es) =
     (case checkForOngoingEvent this e u of
        (False, msg) \<Rightarrow> Some msg
      | (True, _) \<Rightarrow> first_veto this u es)"

definition startEvent :: "ParticipationEvent list \<Rightarrow> World \<Rightarrow> IUser \<Rightarrow> string + result" where
  "startEvent runningEvents w u =
     (case first_veto (duel w) u runningEvents of
        Some msg \<Rightarrow> Inl msg
      | None \<Rightarrow>
          Inr (case start (w\<lparr>running := True\<rparr>) of
                 Inl e \<Rightarrow> Inl e
               | Inr w' \<Rightarrow>
                   Inr (w'\<lparr>timers :=
                             timers w' @ [ParticipationTimer DuelParticipationPeriod]\<rparr>)))"

text \<open>
  Modelled from the spec: when the cooldown period has passed, the service fires
  \<^verbatim>\<open>onCooldownComplete\<close> and removes the event from the registry.
\<close>

definition cooldown_resume :: "World \<Rightarrow> World" where
  "cooldown_resume w = (onCooldownComplete w)\<lparr>running := False\<rparr>"

text \<open>
  Modelled from the spec: \<^verbatim>\<open>EventService.getEvents\<close> returns the currently active
  events; the registry the commands of this world see holds its duel while it is running.
\<close>

definition getEvents :: "World \<Rightarrow> DuelEvent list" where
  "getEvents w = (if running w then [duel w] else [])"

definition registry :: "World \<Rightarrow> ParticipationEvent list \<Rightarrow> ParticipationEvent list" where
  "registry w others = map Duel (getEvents w) @ others"

subsection \<open>AcceptCommand and WeaponCommand\<close>

text \<open>
  An argument that may be missing (\<^verbatim>\<open>undefined\<close>) is an option; \<open>truthy\<close> is
  JavaScript's test \<^verbatim>\<open>if (s)\<close> on it: a string is true unless it is empty.
\<close>

definition truthy :: "string option \<Rightarrow> bool" where
  "truthy s = (case s of None \<Rightarrow> False | Some t \<Rightarrow> t \<noteq> [])"

definition acceptDuel :: "World \<Rightarrow> IUser \<Rightarrow> result" where
  "acceptDuel w u =
     (case accept w u of
        (w', (True, msg)) \<Rightarrow>
          (case participants (duel w') of
             p0 # p1 # _ \<Rightarrow>
               Inr (twitch_sendMessage
                      (msg_time_to_duel (username (user p0)) (username (user p1))) w')
           | _ \<Rightarrow> Inl (TypeError, w'))
      | (w', (False, msg)) \<Rightarrow> Inr (twitch_sendMessage msg w'))"

text \<open>
  \<^verbatim>\<open>AcceptCommand.execute\<close> looks first for a running duel aimed at the user, then for
  any open duel; the loops run over \<open>getEvents\<close>, which holds at most this world's duel.
\<close>

definition AcceptCommand_execute :: "World \<Rightarrow> IUser \<Rightarrow> result" where
  "AcceptCommand_execute w u =
     (case getEvents w of
        [] \<Rightarrow> Inr w
      | d # _ \<Rightarrow>
          if state d = BoardingCompleted \<and> length (participants d) > 1
             \<and> username (user (participants d ! 1)) = username u
          then acceptDuel w u
          else if state d = Open \<and> length (participants d) = 1 then acceptDuel w u
          else Inr w)"

definition chooseWeapon :: "World \<Rightarrow> string option \<Rightarrow> IUser \<Rightarrow> DuelWeapon \<Rightarrow> World" where
  "chooseWeapon w channel u wp =
     (if truthy channel then w
      else
        (case getEvents w of
           [] \<Rightarrow> w
         | d # _ \<Rightarrow>
             if state d = BoardingCompleted then
               (case setWeapon d u wp of
                  (d', True) \<Rightarrow> sendWhisper (username u) wp (w\<lparr>duel := d'\<rparr>)
                | (d', False) \<Rightarrow> w)
             else w))"

definition WeaponCommand_execute :: "World \<Rightarrow> string option \<Rightarrow> IUser \<Rightarrow> string option \<Rightarrow> World" where
  "WeaponCommand_execute w channel u wp =
     (case wp of
        None \<Rightarrow> w
      | Some t \<Rightarrow>
          if t = [] then w
          else
            (let s = toLowerCase t in
             if s = ''rock'' then chooseWeapon w channel u Rock
             else if s = ''scissors'' then chooseWeapon w channel u Scissors
             else if s = ''paper'' then chooseWeapon w channel u Paper
             else w))"

subsection \<open>Runs\<close>

text \<open>
  What happens to a duel, one thing at a time: a chat command handled to completion, or
  a pending delayed callback resumed. A callback that is not pending cannot fire. A run
  stops at the first exception.
\<close>

datatype Action =
    Accept IUser
  | Weapon "string option" IUser "string option"
  | Fire Timer

text \<open>
  Modelled from the spec: when the participation timer fires the event service calls
  \<^verbatim>\<open>participationPeriodEnded\<close>, and when the cooldown timer fires it fires
  \<^verbatim>\<open>onCooldownComplete\<close> and removes the event. The weapon-choice callback is the
  rest of \<^verbatim>\<open>waitForWeaponChoice\<close>.
\<close>

definition resume :: "Timer \<Rightarrow> World \<Rightarrow> result" where
  "resume t w =
     (case t of
        ParticipationTimer _ \<Rightarrow> participationPeriodEnded w
      | WeaponChoiceTimer _ \<Rightarrow> waitForWeaponChoice_resume w
      | CooldownTimer _ \<Rightarrow> Inr (cooldown_resume w))"

definition step :: "World \<Rightarrow> Action \<Rightarrow> result" where
  "step w a =
     (case a of
        Accept u \<Rightarrow> AcceptCommand_execute w u
      | Weapon channel u wp \<Rightarrow> Inr (WeaponCommand_execute w channel u wp)
      | Fire t \<Rightarrow>
          if t \<in> set (timers w) then resume t (w\<lparr>timers := remove1 t (timers w)\<rparr>)
          else Inr w)"

fun run :: "World \<Rightarrow> Action list \<Rightarrow> result" where
  "run w [] = Inr w"
| "run w (a # as) = (case step w a of Inl e \<Rightarrow> Inl e | Inr w' \<Rightarrow> run w' as)"

subsection \<open>Notions the properties are stated with\<close>

text \<open>The relation of the game: rock beats scissors, scissors beats paper, paper beats rock.\<close>

definition beats :: "DuelWeapon \<Rightarrow> DuelWeapon \<Rightarrow> bool" where
  "beats a b =
     ((a = Rock \<and> b = Scissors) \<or> (a = Scissors \<and> b = Paper) \<or> (a = Paper \<and> b = Rock))"

text \<open>The world a call leaves, whether it returned or threw, and whether it threw.\<close>

definition world_after :: "result \<Rightarrow> World" where
  "world_after r = (case r of Inl (e, w) \<Rightarrow> w | Inr w \<Rightarrow> w)"

definition threw :: "result \<Rightarrow> bool" where
  "threw r = (case r of Inl _ \<Rightarrow> True | Inr _ \<Rightarrow> False)"

text \<open>A sequence of \<open>setWeapon\<close> calls for one user, each on the event the last one left.\<close>

definition setWeapons :: "DuelEvent \<Rightarrow> IUser \<Rightarrow> DuelWeapon list \<Rightarrow> DuelEvent" where
  "setWeapons this u ws = foldl (\<lambda>d a. fst (setWeapon d u a)) this ws"

subsection \<open>Example duels\<close>

definition alice :: IUser where
  "alice = \<lparr>username = ''alice'', points = 200\<rparr>"

definition bob :: IUser where
  "bob = \<lparr>username = ''bob'', points = 200\<rparr>"

definition poor_bob :: IUser where
  "poor_bob = \<lparr>username = ''bob'', points = 10\<rparr>"


text \<open>
  The world of a duel that alice's command has constructed, bound to the channel and
  started with no other event running: the duel is registered, its opening message is in
  the chat and its participation timer is pending.
\<close>

definition constructed :: "DuelEvent \<Rightarrow> (string \<Rightarrow> int) \<Rightarrow> World" where
  "constructed d b =
     \<lparr>duel = d\<lparr>sendMessage := to_channel\<rparr>, balances = b, chat = [], whispers = [],
      timers = [], running = False\<rparr>"

definition world_of :: "DuelEvent \<Rightarrow> (string \<Rightarrow> int) \<Rightarrow> World" where
  "world_of d b =
     (case startEvent [] (constructed d b) alice of
        Inl _ \<Rightarrow> constructed d b
      | Inr r \<Rightarrow> world_after r)"

text \<open>An open duel for 20 chews; bob holds 10.\<close>

definition open_duel_20 :: World where
  "open_duel_20 =
     world_of (new_DuelEvent alice None 20) ((\<lambda>_. 0)(''alice'' := 200, ''bob'' := 10))"


text \<open>A duel for 50 chews aimed at bob; both hold 200.\<close>

definition duel_50 :: World where
  "duel_50 =
     world_of (new_DuelEvent alice (Some bob) 50) ((\<lambda>_. 0)(''alice'' := 200, ''bob'' := 200))"

text \<open>
  The duel of \<open>duel_50\<close> once bob has accepted it, and once both have whispered a weapon:
  paper and paper, or rock and scissors.
\<close>

definition accepted_50 :: World where
  "accepted_50 = fst (accept duel_50 bob)"

definition paper_paper :: World where
  "paper_paper =
     WeaponCommand_execute
       (WeaponCommand_execute accepted_50 None alice (Some ''paper'')) None bob (Some ''paper'')"

definition rock_scissors :: World where
  "rock_scissors =
     WeaponCommand_execute
       (WeaponCommand_execute accepted_50 None alice (Some ''rock'')) None bob (Some ''scissors'')"

text \<open>
  bob types \<^verbatim>\<open>!accept\<close> twice; the second command finds him with the 150 chews the
  first escrow has left him. Then both whisper paper, the participation timer fires, and
  the two weapon-choice callbacks the two acceptances have left pending are resumed.
  \<open>single_accept\<close> is the same duel with one \<^verbatim>\<open>!accept\<close>.
\<close>

definition double_accept :: "Action list" where
  "double_accept =
     [Accept bob, Accept (bob\<lparr>points := 150\<rparr>),
      Weapon None alice (Some ''paper''), Weapon None bob (Some ''paper''),
      Fire (ParticipationTimer 60000),
      Fire (WeaponChoiceTimer 60000), Fire (WeaponChoiceTimer 60000)]"

definition single_accept :: "Action list" where
  "single_accept =
     [Accept bob,
      Weapon None alice (Some ''paper''), Weapon None bob (Some ''paper''),
      Fire (ParticipationTimer 60000),
      Fire (WeaponChoiceTimer 60000)]"

text \<open>
  The same two runs with rock whispered by alice and scissors by bob.
\<close>

definition double_accept_rock_scissors :: "Action list" where
  "double_accept_rock_scissors =
     [Accept bob, Accept (bob\<lparr>points := 150\<rparr>),
      Weapon None alice (Some ''rock''), Weapon None bob (Some ''scissors''),
      Fire (ParticipationTimer 60000),
      Fire (WeaponChoiceTimer 60000), Fire (WeaponChoiceTimer 60000)]"

definition single_accept_rock_scissors :: "Action list" where
  "single_accept_rock_scissors =
     [Accept bob,
      Weapon None alice (Some ''rock''), Weapon None bob (Some ''scissors''),
      Fire (ParticipationTimer 60000),
      Fire (WeaponChoiceTimer 60000)]"

text \<open>
  A duel for 25 chews aimed at bob, both holding 200, and the two runs for it, with paper
  whispered by both; bob's second \<^verbatim>\<open>!accept\<close> finds him with 175 chews. The tenth of
  this wager is a half.
\<close>

definition duel_25 :: World where
  "duel_25 =
     world_of (new_DuelEvent alice (Some bob) 25) ((\<lambda>_. 0)(''alice'' := 200, ''bob'' := 200))"

definition double_accept_25 :: "Action list" where
  "double_accept_25 =
     [Accept bob, Accept (bob\<lparr>points := 175\<rparr>),
      Weapon None alice (Some ''paper''), Weapon None bob (Some ''paper''),
      Fire (ParticipationTimer 60000),
      Fire (WeaponChoiceTimer 60000), Fire (WeaponChoiceTimer 60000)]"

definition single_accept_25 :: "Action list" where
  "single_accept_25 =
     [Accept bob,
      Weapon None alice (Some ''paper''), Weapon None bob (Some ''paper''),
      Fire (ParticipationTimer 60000),
      Fire (WeaponChoiceTimer 60000)]"

text \<open>
  alice accepts her own open duel for 20 chews (the command's exception does not stop
  the bot), then whispers rock.
\<close>

definition self_accepted :: World where
  "self_accepted =
     WeaponCommand_execute
       (world_after (AcceptCommand_execute open_duel_20 alice)) None alice (Some ''rock'')"

section \<open>Properties\<close>

subsection \<open>The rounded tenth\<close>

lemma excess_bits_le: "n < 2 ^ (53 + k) \<Longrightarrow> excess_bits n \<le> k"
proof (induction k arbitrary: n)
  case 0
  then show ?case by (simp add: excess_bits.simps)
next
  case (Suc k)
  show ?case
  proof (cases "n < 2 ^ 53")
    case True
    then show ?thesis by (simp add: excess_bits.simps)
  next
    case False
    have "(2::nat) ^ (53 + Suc k) = 2 * 2 ^ (53 + k)"
      by (simp only: add_Suc_right power_Suc)
    then have "n < 2 * 2 ^ (53 + k)"
      using Suc.prems by (simp only:)
    then have "n div 2 < 2 ^ (53 + k)"
      by linarith
    then have "excess_bits (n div 2) \<le> k"
      by (rule Suc.IH)
    then show ?thesis
      using False by (subst excess_bits.simps) simp
  qed
qed

lemma excess_bits_eq:
  assumes "2 ^ (52 + k) \<le> n" and "n < 2 ^ (53 + k)"
  shows "excess_bits n = k"
  using assms
proof (induction k arbitrary: n)
  case 0
  then show ?case by (simp add: excess_bits.simps)
next
  case (Suc k)
  have "(2::nat) ^ (52 + Suc k) = 2 * 2 ^ (52 + k)" "(2::nat) ^ (53 + Suc k) = 2 * 2 ^ (53 + k)"
    by (simp_all only: add_Suc_right power_Suc)
  then have "2 * 2 ^ (52 + k) \<le> n" "n < 2 * 2 ^ (53 + k)"
    using Suc.prems by (simp_all only:)
  then have "2 ^ (52 + k) \<le> n div 2" "n div 2 < 2 ^ (53 + k)"
    by linarith+
  then have "excess_bits (n div 2) = k"
    by (rule Suc.IH)
  moreover have "\<not> n < 2 ^ 53"
  proof -
    have "(2::nat) ^ 53 \<le> 2 ^ (52 + Suc k)"
      by (rule power_increasing) simp_all
    then show ?thesis using Suc.prems(1) by simp
  qed
  ultimately show ?case
    by (subst excess_bits.simps) simp
qed

lemma round_half_even_ge: "n div 2 ^ s \<le> round_half_even n s"
  by (simp add: round_half_even_def Let_def)

lemma round_half_even_le: "2 * (round_half_even n s * 2 ^ s) \<le> 2 * n + 2 ^ s"
proof -
  have n: "n = (n div 2 ^ s) * 2 ^ s + n mod 2 ^ s"
    using div_mult_mod_eq [of n "2 ^ s"] by simp
  define q where "q = n div 2 ^ s"
  define r where "r = n mod 2 ^ s"
  have nq: "n = q * 2 ^ s + r"
    using n by (simp add: q_def r_def)
  show ?thesis
    unfolding round_half_even_def Let_def q_def [symmetric] r_def [symmetric]
    by (auto simp: nq algebra_simps)
qed

text \<open>
  Rounding to a double moves a number by half a unit of its last place at most, and not
  below a number of the same or a coarser grid that lies below it.
\<close>

lemma round_double_le: "2 * round_double n \<le> 2 * n + 2 ^ excess_bits n"
  unfolding round_double_def by (rule round_half_even_le)

lemma round_double_ge:
  assumes "a * 2 ^ k \<le> n" and "excess_bits n \<le> k"
  shows "a * 2 ^ k \<le> round_double n"
proof -
  define s where "s = excess_bits n"
  have k: "(2::nat) ^ k = 2 ^ (k - s) * 2 ^ s"
    using assms(2) by (simp add: s_def flip: power_add)
  have "a * 2 ^ (k - s) * 2 ^ s \<le> n"
    using assms(1) by (simp add: k mult.assoc)
  then have "a * 2 ^ (k - s) \<le> n div 2 ^ s"
    by (simp add: less_eq_div_iff_mult_less_eq)
  also have "\<dots> \<le> round_half_even n s"
    by (rule round_half_even_ge)
  finally have "a * 2 ^ (k - s) * 2 ^ s \<le> round_half_even n s * 2 ^ s"
    by simp
  then show ?thesis
    by (simp add: round_double_def s_def [symmetric] k mult.assoc)
qed

lemma Math_round_double_times_tenth:
  assumes "w < 2 ^ 52"
  shows "Math_round (int (double_times_tenth w)) = (int w + 5) div 10"
proof -
  define n where "n = w * 3602879701896397"
  define l where "l = (w + 5) div 10"
  have w: "w < 4503599627370496"
    using assms by simp
  have l: "10 * l \<le> w + 5" "w + 5 < 10 * l + 10"
    unfolding l_def by linarith+
  have "n < 2 ^ (53 + 51)"
    using w unfolding n_def by simp
  then have s: "excess_bits n \<le> 51"
    by (rule excess_bits_le)
  then have "(2::nat) ^ excess_bits n \<le> 2 ^ 51"
    by (intro power_increasing) simp_all
  then have up: "2 * round_double n \<le> 2 * n + 2251799813685248"
    using round_double_le [of n] by simp
  have lo: "(2 * l - 1) * 18014398509481984 \<le> round_double n"
  proof -
    have "(2 * l - 1) * 2 ^ 54 \<le> n"
      using l unfolding n_def by (cases "l = 0") (simp_all add: algebra_simps)
    moreover have "excess_bits n \<le> 54"
      using s by simp
    ultimately have "(2 * l - 1) * 2 ^ 54 \<le> round_double n"
      by (rule round_double_ge)
    then show ?thesis by simp
  qed
  have "(2 * int (round_double n) + 36028797018963968) div 72057594037927936 = int l"
  proof (cases "l = 0")
    case True
    have "w \<le> 4"
      using l True by simp
    then have "2 * n \<le> 8 * 3602879701896397"
      unfolding n_def by simp
    then have "2 * round_double n < 36028797018963968"
      using up by simp
    then show ?thesis
      using True by simp
  next
    case False
    have a: "(2 * l - 1) * 36028797018963968 \<le> 2 * round_double n"
      using lo by simp
    have "2 * n \<le> (20 * l + 8) * 3602879701896397"
      using l unfolding n_def by simp
    then have b: "2 * round_double n < (2 * l + 1) * 36028797018963968"
      using up l w by (simp add: algebra_simps)
    have a': "(2 * int l - 1) * 36028797018963968 \<le> 2 * int (round_double n)"
      using a False by (simp add: algebra_simps of_nat_diff)
    have b': "2 * int (round_double n) < (2 * int l + 1) * 36028797018963968"
      using b by (simp add: algebra_simps)
    show ?thesis
      using a' b' by (simp add: algebra_simps)
  qed
  then show ?thesis
    by (simp add: Math_round_def double_times_tenth_def n_def l_def zdiv_int)
qed

text \<open>
  For a wager below \<open>2^52\<close> that is not negative, \<^verbatim>\<open>Math.round(wager * 0.1)\<close> is the
  integer nearest to the tenth of the wager, a half rounded upwards.
\<close>

lemma Math_round_tenth_small:
  assumes "0 \<le> w" and "w < 4503599627370496"
  shows "Math_round_tenth w = (w + 5) div 10"
proof -
  have "nat w < 2 ^ 52"
    using assms by simp
  then show ?thesis
    using assms(1) Math_round_double_times_tenth [of "nat w"]
    by (simp add: Math_round_tenth_def)
qed

lemma Math_round_tenth_nearest:
  assumes "0 \<le> w" and "w < 4503599627370496"
  shows "10 * Math_round_tenth w - 5 \<le> w \<and> w < 10 * Math_round_tenth w + 5"
  unfolding Math_round_tenth_small [OF assms] by linarith

lemma Math_round_tenth_examples:
  "Math_round_tenth 0 = 0" "Math_round_tenth 4 = 0" "Math_round_tenth 5 = 1"
  "Math_round_tenth 14 = 1" "Math_round_tenth 15 = 2" "Math_round_tenth 25 = 3"
  "Math_round_tenth 50 = 5" "Math_round_tenth 99 = 10"
  by (simp_all add: Math_round_tenth_small)

text \<open>
  The range is not all of the doubles: the product of \<open>3 * 2^51\<close> and
  \<^verbatim>\<open>0.1\<close>, which is \<open>675539944105574.4375\<close> before it is rounded, lies half-way between
  two doubles and becomes \<open>675539944105574.5\<close>, which \<^verbatim>\<open>Math.round\<close> takes upwards.
\<close>

lemma Math_round_tenth_beyond:
  "Math_round_tenth 6755399441055744 = 675539944105575"
  "(6755399441055744 + 5) div 10 = (675539944105574 :: int)"
proof -
  have "excess_bits (6755399441055744 * 3602879701896397) = 52"
    by (rule excess_bits_eq) simp_all
  then show "Math_round_tenth 6755399441055744 = 675539944105575"
    by (simp add: Math_round_tenth_def Math_round_def double_times_tenth_def round_double_def
          round_half_even_def Let_def)
  show "(6755399441055744 + 5) div 10 = (675539944105574 :: int)"
    by simp
qed

subsection \<open>Evaluating the examples\<close>

lemma toLowerCase_alice: "toLowerCase ''alice'' = ''alice''"
  by (simp add: toLowerCase_def lower_char_def)

lemma toLowerCase_bob: "toLowerCase ''bob'' = ''bob''"
  by (simp add: toLowerCase_def lower_char_def)

lemma toLowerCase_paper: "toLowerCase ''paper'' = ''paper''"
  by (simp add: toLowerCase_def lower_char_def)

lemma toLowerCase_rock: "toLowerCase ''rock'' = ''rock''"
  by (simp add: toLowerCase_def lower_char_def)

lemma toLowerCase_scissors: "toLowerCase ''scissors'' = ''scissors''"
  by (simp add: toLowerCase_def lower_char_def)


lemmas example_defs =
  alice_def bob_def poor_bob_def new_DuelEvent_def new_DuelEventParticipant_def
  toLowerCase_alice toLowerCase_bob

lemmas duel_defs =
  accept_def canAccept_def getParticipant_def hasParticipant_def same_user_def setWeapon_def
  waitForWeaponChoice_def changeUserPoints_def Let_def

lemmas command_defs =
  AcceptCommand_execute_def acceptDuel_def getEvents_def WeaponCommand_execute_def
  chooseWeapon_def truthy_def twitch_sendMessage_def this_sendMessage_def sendWhisper_def
  toLowerCase_paper toLowerCase_rock toLowerCase_scissors

lemmas start_defs =
  world_of_def constructed_def startEvent_def start_def this_sendMessage_def to_channel_def
  world_after_def DuelParticipationPeriod_def

lemma open_duel_20_eval:
  "open_duel_20 =
     \<lparr>duel =
        \<lparr>state = Open,
         participants =
           [\<lparr>user = alice, participant_wager = 20, accepted = True, weapon = NoWeapon\<rparr>],
         wager = 20,
         sendMessage = to_channel\<rparr>,
      balances = (\<lambda>_. 0)(''alice'' := 200, ''bob'' := 10),
      chat = [msg_open_duel ''alice'' 20],
      whispers = [],
      timers = [ParticipationTimer 60000],
      running = True\<rparr>"
  by (simp add: open_duel_20_def start_defs example_defs)


lemma duel_50_eval:
  "duel_50 =
     \<lparr>duel =
        \<lparr>state = BoardingCompleted,
         participants =
           [\<lparr>user = alice, participant_wager = 50, accepted = True, weapon = NoWeapon\<rparr>,
            \<lparr>user = bob, participant_wager = 50, accepted = False, weapon = NoWeapon\<rparr>],
         wager = 50,
         sendMessage = to_channel\<rparr>,
      balances = (\<lambda>_. 0)(''alice'' := 200, ''bob'' := 200),
      chat = [msg_challenge ''alice'' ''bob'' 50],
      whispers = [],
      timers = [ParticipationTimer 60000],
      running = True\<rparr>"
  by (simp add: duel_50_def start_defs example_defs)

lemma duel_25_eval:
  "duel_25 =
     \<lparr>duel =
        \<lparr>state = BoardingCompleted,
         participants =
           [\<lparr>user = alice, participant_wager = 25, accepted = True, weapon = NoWeapon\<rparr>,
            \<lparr>user = bob, participant_wager = 25, accepted = False, weapon = NoWeapon\<rparr>],
         wager = 25,
         sendMessage = to_channel\<rparr>,
      balances = (\<lambda>_. 0)(''alice'' := 200, ''bob'' := 200),
      chat = [msg_challenge ''alice'' ''bob'' 25],
      whispers = [],
      timers = [ParticipationTimer 60000],
      running = True\<rparr>"
  by (simp add: duel_25_def start_defs example_defs)

lemma duel_50_balances:
  "balances duel_50 ''alice'' = 200" "balances duel_50 ''bob'' = 200"
  by (simp_all add: duel_50_eval)

lemma accepted_50_eval:
  "duel accepted_50 =
     \<lparr>state = BoardingCompleted,
      participants =
        [\<lparr>user = alice, participant_wager = 50, accepted = True, weapon = NoWeapon\<rparr>,
         \<lparr>user = bob, participant_wager = 50, accepted = True, weapon = NoWeapon\<rparr>],
      wager = 50,
      sendMessage = to_channel\<rparr>"
  "balances accepted_50 = changeUsersPoints [alice, bob] (- 50) (balances duel_50)"
  "chat accepted_50 = [msg_challenge ''alice'' ''bob'' 50]"
  "whispers accepted_50 = []"
  "timers accepted_50 = [ParticipationTimer 60000, WeaponChoiceTimer 60000]"
  "running accepted_50"
  by (simp_all add: accepted_50_def duel_50_eval example_defs duel_defs)

lemma paper_paper_eval:
  "duel paper_paper =
     \<lparr>state = BoardingCompleted,
      participants =
        [\<lparr>user = alice, participant_wager = 50, accepted = True, weapon = Paper\<rparr>,
         \<lparr>user = bob, participant_wager = 50, accepted = True, weapon = Paper\<rparr>],
      wager = 50,
      sendMessage = to_channel\<rparr>"
  "balances paper_paper = changeUsersPoints [alice, bob] (- 50) (balances duel_50)"
  "chat paper_paper = [msg_challenge ''alice'' ''bob'' 50]"
  "whispers paper_paper = [(''alice'', Paper), (''bob'', Paper)]"
  "timers paper_paper = [ParticipationTimer 60000, WeaponChoiceTimer 60000]"
  "running paper_paper"
  by (simp_all add: paper_paper_def accepted_50_eval command_defs example_defs duel_defs)

lemma rock_scissors_eval:
  "duel rock_scissors =
     \<lparr>state = BoardingCompleted,
      participants =
        [\<lparr>user = alice, participant_wager = 50, accepted = True, weapon = Rock\<rparr>,
         \<lparr>user = bob, participant_wager = 50, accepted = True, weapon = Scissors\<rparr>],
      wager = 50,
      sendMessage = to_channel\<rparr>"
  "balances rock_scissors = changeUsersPoints [alice, bob] (- 50) (balances duel_50)"
  "chat rock_scissors = [msg_challenge ''alice'' ''bob'' 50]"
  "whispers rock_scissors = [(''alice'', Rock), (''bob'', Scissors)]"
  "timers rock_scissors = [ParticipationTimer 60000, WeaponChoiceTimer 60000]"
  "running rock_scissors"
  by (simp_all add: rock_scissors_def accepted_50_eval command_defs example_defs duel_defs)

subsection \<open>Balances\<close>




subsection \<open>Acceptance\<close>




text \<open>
  C6. A user whose points are below the wager cannot accept: \<open>accept\<close> returns
  \<open>(False, message)\<close>, the message being \<^verbatim>\<open>@<user> does not have enough chews!\<close>, and
  the world it returns is the world it was given: no participant added or marked, no
  balance changed, the state of the duel as it was.
\<close>

theorem accept_insufficient_funds:
  assumes "points u < wager (duel w)"
  shows "accept w u = (w, (False, ''@'' @ username u @ '' does not have enough chews!''))"
  using assms by (simp add: accept_def canAccept_def msg_not_enough_def)

theorem accept_insufficient_funds_witness:
  "points poor_bob < wager (duel open_duel_20)
   \<and> accept open_duel_20 poor_bob
       = (open_duel_20, (False, ''@'' @ username poor_bob @ '' does not have enough chews!''))
   \<and> username poor_bob = ''bob''
   \<and> state (duel open_duel_20) = Open"
proof -
  have h: "points poor_bob < wager (duel open_duel_20)"
    by (simp add: poor_bob_def open_duel_20_eval)
  have s: "state (duel open_duel_20) = Open"
    by (simp add: open_duel_20_eval)
  have n: "username poor_bob = ''bob''"
    by (simp add: poor_bob_def)
  from accept_insufficient_funds [OF h] h s n show ?thesis by blast
qed



subsection \<open>Choosing a weapon\<close>

lemma same_user_weapon [simp]: "same_user u (p\<lparr>weapon := a\<rparr>) = same_user u p"
  by (simp add: same_user_def)

lemma same_user_accepted [simp]: "same_user u (p\<lparr>accepted := a\<rparr>) = same_user u p"
  by (simp add: same_user_def)

lemma find_update_first:
  assumes "\<And>x. P (f x) = P x"
  shows "find P (update_first P f ps) = map_option f (find P ps)"
  using assms by (induction ps) auto

lemma update_first_twice:
  assumes "\<And>x. P (g x) = P x"
  shows "update_first P f (update_first P g ps) = update_first P (\<lambda>x. f (g x)) ps"
  using assms by (induction ps) auto

lemma setWeapon_found:
  assumes "hasParticipant d u"
  shows "setWeapon d u a =
           (d\<lparr>participants :=
                update_first (same_user u) (\<lambda>p. p\<lparr>weapon := a\<rparr>) (participants d)\<rparr>,
            True)"
  using assms by (auto simp: setWeapon_def hasParticipant_def split: option.splits)

lemma setWeapon_keeps_participant:
  assumes "hasParticipant d u"
  shows "hasParticipant (fst (setWeapon d u a)) u"
  using assms
  by (auto simp: setWeapon_found hasParticipant_def getParticipant_def find_update_first)

lemma setWeapon_reads_back:
  assumes "hasParticipant d u"
  shows "map_option weapon (getParticipant (fst (setWeapon d u a)) u) = Some a"
  using assms
  by (auto simp: setWeapon_found hasParticipant_def getParticipant_def find_update_first)

lemma setWeapon_overwrites:
  assumes "hasParticipant d u"
  shows "fst (setWeapon (fst (setWeapon d u a)) u b) = fst (setWeapon d u b)"
  using assms setWeapon_keeps_participant [OF assms, of a]
  by (simp add: setWeapon_found update_first_twice)

lemma setWeapons_snoc:
  "setWeapons d u (ws @ [a]) = fst (setWeapon (setWeapons d u ws) u a)"
  by (simp add: setWeapons_def)

lemma setWeapons_last:
  assumes "hasParticipant d u"
  shows "ws \<noteq> [] \<Longrightarrow> setWeapons d u ws = fst (setWeapon d u (last ws))"
proof (induction ws rule: rev_induct)
  case Nil
  then show ?case by simp
next
  case (snoc a ws)
  show ?case
  proof (cases "ws = []")
    case True
    then show ?thesis by (simp add: setWeapons_def)
  next
    case False
    then have "setWeapons d u ws = fst (setWeapon d u (last ws))"
      using snoc.IH by simp
    then show ?thesis
      by (simp add: setWeapons_snoc setWeapon_overwrites [OF assms])
  qed
qed

text \<open>
  C7. For a user who is a participant of the duel, every \<open>setWeapon\<close> call returns true
  and leaves the weapon of the participant \<open>getParticipant\<close> finds for the user equal to
  the weapon passed; a second call overwrites the first, so that two calls in a row
  leave the event the second alone would have left, and any number of calls the event
  the last one alone would have left. The settlement, which reads the event only, is
  then the same.
\<close>

theorem setWeapon_last_write_wins:
  assumes "hasParticipant d u"
  shows "snd (setWeapon d u a)
         \<and> hasParticipant (fst (setWeapon d u a)) u
         \<and> map_option weapon (getParticipant (fst (setWeapon d u a)) u) = Some a
         \<and> fst (setWeapon (fst (setWeapon d u a)) u b) = fst (setWeapon d u b)
         \<and> (ws \<noteq> [] \<longrightarrow> setWeapons d u ws = fst (setWeapon d u (last ws)))
         \<and> waitForWeaponChoice_resume (w\<lparr>duel := fst (setWeapon (fst (setWeapon d u a)) u b)\<rparr>)
             = waitForWeaponChoice_resume (w\<lparr>duel := fst (setWeapon d u b)\<rparr>)"
proof (intro conjI impI)
  show "snd (setWeapon d u a)"
    by (simp add: setWeapon_found [OF assms])
  show "hasParticipant (fst (setWeapon d u a)) u"
    by (rule setWeapon_keeps_participant [OF assms])
  show "map_option weapon (getParticipant (fst (setWeapon d u a)) u) = Some a"
    by (rule setWeapon_reads_back [OF assms])
  show "fst (setWeapon (fst (setWeapon d u a)) u b) = fst (setWeapon d u b)"
    by (rule setWeapon_overwrites [OF assms])
  then show
    "waitForWeaponChoice_resume (w\<lparr>duel := fst (setWeapon (fst (setWeapon d u a)) u b)\<rparr>)
       = waitForWeaponChoice_resume (w\<lparr>duel := fst (setWeapon d u b)\<rparr>)"
    by simp
  show "setWeapons d u ws = fst (setWeapon d u (last ws))" if "ws \<noteq> []"
    using that by (rule setWeapons_last [OF assms])
qed

theorem setWeapon_last_write_wins_witness:
  "hasParticipant (duel duel_50) bob
   \<and> snd (setWeapon (duel duel_50) bob Rock)
   \<and> map_option weapon (getParticipant (fst (setWeapon (duel duel_50) bob Rock)) bob) = Some Rock
   \<and> fst (setWeapon (fst (setWeapon (duel duel_50) bob Rock)) bob Paper)
       = fst (setWeapon (duel duel_50) bob Paper)
   \<and> setWeapons (duel duel_50) bob [Rock, Scissors, Paper]
       = fst (setWeapon (duel duel_50) bob Paper)
   \<and> map (weapon) (participants (setWeapons (duel duel_50) bob [Rock, Scissors, Paper]))
       = [NoWeapon, Paper]"
proof -
  have h: "hasParticipant (duel duel_50) bob"
    by (simp add: duel_50_eval example_defs duel_defs)
  have e: "map (weapon) (participants (fst (setWeapon (duel duel_50) bob Paper)))
             = [NoWeapon, Paper]"
    by (simp add: duel_50_eval example_defs duel_defs)
  from setWeapon_last_write_wins [OF h, of Rock Paper "[Rock, Scissors, Paper]"] h e
  show ?thesis by simp
qed

subsection \<open>Settlement\<close>

lemma beats_iff:
  "(beats a b \<or> beats b a) = (a \<noteq> b \<and> a \<noteq> NoWeapon \<and> b \<noteq> NoWeapon)"
  by (cases a; cases b) (simp_all add: beats_def)

lemma startDuel_tie_balances:
  assumes "participants (duel w) = p0 # p1 # rest" and "weapon p0 = weapon p1"
  shows "\<exists>w'. startDuel w = Inr w'
           \<and> balances w' = changeUsersPoints (map user (participants (duel w)))
                 (wager (duel w) - Math_round_tenth (wager (duel w))) (balances w)"
  using assms
  by (cases "weapon p1")
     (simp_all add: startDuel_def Let_def stopEventStartCooldown_def this_sendMessage_def)

lemma startDuel_win_balances:
  assumes "participants (duel w) = p0 # p1 # rest" and "beats (weapon p0) (weapon p1)"
  shows "\<exists>w'. startDuel w = Inr w'
           \<and> balances w' = changeUserPoints (user p0) (wager (duel w) * 2) (balances w)"
  using assms
  by (cases "weapon p0"; cases "weapon p1")
     (simp_all add: beats_def startDuel_def Let_def stopEventStartCooldown_def this_sendMessage_def)

lemma startDuel_lose_balances:
  assumes "participants (duel w) = p0 # p1 # rest" and "beats (weapon p1) (weapon p0)"
  shows "\<exists>w'. startDuel w = Inr w'
           \<and> balances w' = changeUserPoints (user p1) (wager (duel w) * 2) (balances w)"
  using assms
  by (cases "weapon p0"; cases "weapon p1")
     (simp_all add: beats_def startDuel_def Let_def stopEventStartCooldown_def this_sendMessage_def)

lemma resume_settles:
  assumes "participants (duel w) = p0 # p1 # rest"
      and "weapon p0 \<noteq> NoWeapon" and "weapon p1 \<noteq> NoWeapon"
  shows "waitForWeaponChoice_resume w = startDuel w"
  using assms by (simp add: waitForWeaponChoice_resume_def)

text \<open>
  What one settlement pays when the two participants hold the same weapon: each of the
  two is paid the wager less an amount \<open>lost\<close>, the integer nearest to the tenth of the
  wager (a half rounded upwards), and no other balance changes. Where the balances the
  settlement finds are balances \<open>b0\<close> less the wager escrowed from each of the two once,
  each of the two ends \<open>lost\<close> below \<open>b0\<close>: the tenth is lost to both and paid to
  nobody. The wager is not negative and below \<open>2^52\<close>, the range in which
  \<^verbatim>\<open>Math.round(wager * 0.1)\<close> is that nearest integer. With a weapon chosen, the
  settlement is what the weapon-choice callback runs.
\<close>

lemma startDuel_tie_payout:
  assumes "participants (duel w) = [p0, p1]"
      and "username (user p0) \<noteq> username (user p1)"
      and "weapon p0 = weapon p1"
      and "0 \<le> wager (duel w)" and "wager (duel w) < 2 ^ 52"
  shows "\<exists>w' lost. startDuel w = Inr w'
           \<and> 10 * lost - 5 \<le> wager (duel w) \<and> wager (duel w) < 10 * lost + 5
           \<and> (weapon p0 \<noteq> NoWeapon \<longrightarrow> waitForWeaponChoice_resume w = startDuel w)
           \<and> balances w' (username (user p0))
               = balances w (username (user p0)) + (wager (duel w) - lost)
           \<and> balances w' (username (user p1))
               = balances w (username (user p1)) + (wager (duel w) - lost)
           \<and> (\<forall>x. x \<noteq> username (user p0) \<and> x \<noteq> username (user p1)
                  \<longrightarrow> balances w' x = balances w x)
           \<and> (\<forall>b0. balances w = changeUsersPoints [user p0, user p1] (- wager (duel w)) b0
                  \<longrightarrow> balances w' (username (user p0)) = b0 (username (user p0)) - lost
                      \<and> balances w' (username (user p1)) = b0 (username (user p1)) - lost)"
proof -
  obtain w' where s: "startDuel w = Inr w'"
    and b: "balances w' = changeUsersPoints (map user (participants (duel w)))
                 (wager (duel w) - Math_round_tenth (wager (duel w))) (balances w)"
    using startDuel_tie_balances [OF assms(1) assms(3)] by blast
  have r: "weapon p0 \<noteq> NoWeapon \<longrightarrow> waitForWeaponChoice_resume w = startDuel w"
    using resume_settles [OF assms(1)] assms(3) by simp
  have n: "10 * Math_round_tenth (wager (duel w)) - 5 \<le> wager (duel w)"
    "wager (duel w) < 10 * Math_round_tenth (wager (duel w)) + 5"
    using Math_round_tenth_nearest [of "wager (duel w)"] assms(4,5) by simp_all
  have "startDuel w = Inr w'
        \<and> 10 * Math_round_tenth (wager (duel w)) - 5 \<le> wager (duel w)
        \<and> wager (duel w) < 10 * Math_round_tenth (wager (duel w)) + 5
        \<and> (weapon p0 \<noteq> NoWeapon \<longrightarrow> waitForWeaponChoice_resume w = startDuel w)
        \<and> balances w' (username (user p0))
            = balances w (username (user p0))
              + (wager (duel w) - Math_round_tenth (wager (duel w)))
        \<and> balances w' (username (user p1))
            = balances w (username (user p1))
              + (wager (duel w) - Math_round_tenth (wager (duel w)))
        \<and> (\<forall>x. x \<noteq> username (user p0) \<and> x \<noteq> username (user p1)
               \<longrightarrow> balances w' x = balances w x)
        \<and> (\<forall>b0. balances w = changeUsersPoints [user p0, user p1] (- wager (duel w)) b0
               \<longrightarrow> balances w' (username (user p0))
                     = b0 (username (user p0)) - Math_round_tenth (wager (duel w))
                   \<and> balances w' (username (user p1))
                     = b0 (username (user p1)) - Math_round_tenth (wager (duel w)))"
    using assms(2) r n by (auto simp: s b assms(1) changeUserPoints_def)
  then show ?thesis by blast
qed

lemma startDuel_tie_payout_example:
  "waitForWeaponChoice_resume paper_paper = startDuel paper_paper
   \<and> \<not> threw (startDuel paper_paper)
   \<and> balances paper_paper ''alice'' = 150
   \<and> balances paper_paper ''bob'' = 150
   \<and> balances (world_after (startDuel paper_paper)) ''alice'' = 195
   \<and> balances (world_after (startDuel paper_paper)) ''bob'' = 195"
  by (simp add: waitForWeaponChoice_resume_def startDuel_def paper_paper_eval duel_50_eval
        stopEventStartCooldown_def this_sendMessage_def threw_def world_after_def
        Math_round_tenth_small Let_def changeUserPoints_def alice_def bob_def)

text \<open>
  What one settlement pays when one participant's weapon beats the other's: the one whose
  weapon beats the other's is paid twice the wager and the other nothing; no other
  balance changes. Where the balances the settlement finds are balances \<open>b0\<close> less the
  wager escrowed from each of the two once, the winner ends the wager above \<open>b0\<close> and the
  loser the wager below. Two weapons that differ, neither of them \<open>NoWeapon\<close>, are always
  in the relation one way or the other, and with them the settlement is what the
  weapon-choice callback runs.
\<close>

lemma startDuel_win_lose_payout:
  assumes "participants (duel w) = [p0, p1]"
      and "username (user p0) \<noteq> username (user p1)"
      and "beats (weapon p0) (weapon p1) \<and> pw = p0 \<and> pl = p1
           \<or> beats (weapon p1) (weapon p0) \<and> pw = p1 \<and> pl = p0"
  shows "\<exists>w'. startDuel w = Inr w'
           \<and> waitForWeaponChoice_resume w = startDuel w
           \<and> (beats a b \<or> beats b a) = (a \<noteq> b \<and> a \<noteq> NoWeapon \<and> b \<noteq> NoWeapon)
           \<and> balances w' (username (user pw))
               = balances w (username (user pw)) + wager (duel w) * 2
           \<and> balances w' (username (user pl)) = balances w (username (user pl))
           \<and> (\<forall>x. x \<noteq> username (user pw) \<longrightarrow> balances w' x = balances w x)
           \<and> (\<forall>b0. balances w = changeUsersPoints [user p0, user p1] (- wager (duel w)) b0
                  \<longrightarrow> balances w' (username (user pw))
                        = b0 (username (user pw)) + wager (duel w)
                      \<and> balances w' (username (user pl))
                        = b0 (username (user pl)) - wager (duel w))"
proof -
  have nn: "weapon p0 \<noteq> NoWeapon" "weapon p1 \<noteq> NoWeapon"
    using assms(3) by (auto simp: beats_def)
  have r: "waitForWeaponChoice_resume w = startDuel w"
    using resume_settles [OF assms(1) nn] .
  from assms(3) show ?thesis
  proof (elim disjE conjE)
    assume a: "beats (weapon p0) (weapon p1)" "pw = p0" "pl = p1"
    obtain w' where s: "startDuel w = Inr w'"
      and b: "balances w' = changeUserPoints (user p0) (wager (duel w) * 2) (balances w)"
      using startDuel_win_balances [OF assms(1) a(1)] by blast
    show ?thesis
      using assms(2) by (auto simp: r s b a beats_iff changeUserPoints_def)
  next
    assume a: "beats (weapon p1) (weapon p0)" "pw = p1" "pl = p0"
    obtain w' where s: "startDuel w = Inr w'"
      and b: "balances w' = changeUserPoints (user p1) (wager (duel w) * 2) (balances w)"
      using startDuel_lose_balances [OF assms(1) a(1)] by blast
    show ?thesis
      using assms(2) by (auto simp: r s b a beats_iff changeUserPoints_def)
  qed
qed

lemma startDuel_win_lose_payout_example:
  "waitForWeaponChoice_resume rock_scissors = startDuel rock_scissors
   \<and> \<not> threw (startDuel rock_scissors)
   \<and> balances rock_scissors ''alice'' = 150
   \<and> balances rock_scissors ''bob'' = 150
   \<and> balances (world_after (startDuel rock_scissors)) ''alice'' = 250
   \<and> balances (world_after (startDuel rock_scissors)) ''bob'' = 150"
  by (simp add: waitForWeaponChoice_resume_def startDuel_def rock_scissors_eval duel_50_eval
        stopEventStartCooldown_def this_sendMessage_def threw_def world_after_def
        Let_def changeUserPoints_def alice_def bob_def)

subsection \<open>The participation timer after the end\<close>

lemma startDuel_ended:
  assumes "startDuel w = Inr w'"
  shows "state (duel w') = Ended \<and> running w' = running w"
  using assms
  by (auto simp: startDuel_def Let_def stopEventStartCooldown_def this_sendMessage_def
        split: list.splits if_splits DuelWeapon.splits)

lemma resume_ended:
  assumes "waitForWeaponChoice_resume w = Inr w'"
  shows "state (duel w') = Ended"
  using assms startDuel_ended
  by (auto simp: waitForWeaponChoice_resume_def returnChews_def this_sendMessage_def stopEvent_def
        split: list.splits if_splits)

lemma participationPeriodEnded_when_ended:
  assumes "state (duel w) = Ended"
  shows "participationPeriodEnded w = Inr w"
  using assms by (simp add: participationPeriodEnded_def)

lemma participationPeriodEnded_balances:
  "balances (world_after (participationPeriodEnded w)) = balances w"
  by (auto simp: participationPeriodEnded_def world_after_def stopEvent_def this_sendMessage_def
        split: list.splits)

lemma participationPeriodEnded_idem:
  assumes "participationPeriodEnded w = Inr w'"
  shows "participationPeriodEnded w' = Inr w'"
proof (cases "state (duel w') = Ended")
  case True
  then show ?thesis by (rule participationPeriodEnded_when_ended)
next
  case False
  with assms have "w' = w"
    by (auto simp: participationPeriodEnded_def stopEvent_def this_sendMessage_def
          split: list.splits if_splits)
  with assms show ?thesis by simp
qed

text \<open>
  C2. \<open>participationPeriodEnded\<close> changes no balance, whatever the state of the duel. Called
  on the world the weapon-choice callback has left (a settlement, or a cancellation with
  refund), on the world an earlier \<open>participationPeriodEnded\<close> has left, or on any world
  whose duel is \<open>Ended\<close>, it returns that world as it is: no balance changed, no message
  sent, nothing refunded.
\<close>

theorem no_double_settlement:
  "(\<forall>w'. waitForWeaponChoice_resume w = Inr w' \<longrightarrow> participationPeriodEnded w' = Inr w')
   \<and> (\<forall>w'. participationPeriodEnded w = Inr w' \<longrightarrow> participationPeriodEnded w' = Inr w')
   \<and> (state (duel w) = Ended \<longrightarrow> participationPeriodEnded w = Inr w)
   \<and> balances (world_after (participationPeriodEnded w)) = balances w"
  using resume_ended participationPeriodEnded_when_ended participationPeriodEnded_idem
    participationPeriodEnded_balances
  by blast

theorem no_double_settlement_witness:
  "waitForWeaponChoice_resume paper_paper = startDuel paper_paper
   \<and> \<not> threw (startDuel paper_paper)
   \<and> state (duel (world_after (startDuel paper_paper))) = Ended
   \<and> participationPeriodEnded (world_after (startDuel paper_paper))
       = Inr (world_after (startDuel paper_paper))
   \<and> \<not> threw (participationPeriodEnded open_duel_20)
   \<and> length (chat (world_after (participationPeriodEnded open_duel_20)))
       = length (chat open_duel_20) + 1
   \<and> participationPeriodEnded (world_after (participationPeriodEnded open_duel_20))
       = Inr (world_after (participationPeriodEnded open_duel_20))"
proof -
  let ?p0 = "\<lparr>user = alice, participant_wager = 50, accepted = True, weapon = Paper\<rparr>"
  let ?p1 = "\<lparr>user = bob, participant_wager = 50, accepted = True, weapon = Paper\<rparr>"
  have ps: "participants (duel paper_paper) = ?p0 # ?p1 # []"
    by (simp add: paper_paper_eval)
  have r: "waitForWeaponChoice_resume paper_paper = startDuel paper_paper"
    by (rule resume_settles [OF ps]) simp_all
  obtain w1 where s: "startDuel paper_paper = Inr w1"
    using startDuel_tie_balances [OF ps] by auto
  have e: "state (duel w1) = Ended"
    using startDuel_ended [OF s] by simp
  have n1: "participationPeriodEnded w1 = Inr w1"
    using no_double_settlement [of paper_paper] r s by simp
  have c: "participationPeriodEnded open_duel_20
             = Inr (stopEvent (this_sendMessage (msg_not_answered ''alice'') open_duel_20))"
    by (simp add: participationPeriodEnded_def open_duel_20_eval example_defs)
  have n2:
    "participationPeriodEnded
       (stopEvent (this_sendMessage (msg_not_answered ''alice'') open_duel_20))
     = Inr (stopEvent (this_sendMessage (msg_not_answered ''alice'') open_duel_20))"
    using no_double_settlement [of open_duel_20] c by simp
  have l:
    "length (chat (stopEvent (this_sendMessage (msg_not_answered ''alice'') open_duel_20)))
     = length (chat open_duel_20) + 1"
    by (simp add: stopEvent_def this_sendMessage_def to_channel_def open_duel_20_eval)
  show ?thesis
    using r s e n1 c n2 l by (simp add: threw_def world_after_def)
qed

subsection \<open>One duel at a time\<close>

lemma first_veto_duel:
  assumes "Duel d \<in> set evs"
  shows "first_veto this u evs = Some (msg_just_finished (username u))
         \<or> first_veto this u evs = Some (msg_underway (username u))"
  using assms
proof (induction evs)
  case Nil
  then show ?case by simp
next
  case (Cons e evs)
  then show ?case
    by (cases e) (auto simp: checkForOngoingEvent_def)
qed

lemma first_veto_none:
  assumes "\<forall>d. Duel d \<notin> set evs"
  shows "first_veto this u evs = None"
  using assms
proof (induction evs)
  case Nil
  then show ?case by simp
next
  case (Cons e evs)
  then show ?case
    by (cases e) (auto simp: checkForOngoingEvent_def)
qed

lemma startEvent_running:
  assumes "startEvent evs w u = Inr (Inr w')"
  shows "running w'"
  using assms
  by (auto simp: startEvent_def start_def this_sendMessage_def
        split: option.splits sum.splits list.splits)

lemma accept_running: "running (fst (accept w u)) = running w"
  by (auto simp: accept_def canAccept_def Let_def waitForWeaponChoice_def split: option.splits)

lemma chooseWeapon_running: "running (chooseWeapon w c u wp) = running w"
  by (auto simp: chooseWeapon_def sendWhisper_def setWeapon_def
        split: list.splits option.splits prod.splits)

lemma WeaponCommand_execute_running: "running (WeaponCommand_execute w c u s) = running w"
  by (auto simp: WeaponCommand_execute_def chooseWeapon_running Let_def split: option.splits)

text \<open>
  C5. \<open>checkForOngoingEvent\<close> answers \<open>(False, message)\<close> for every running duel,
  whatever its state: that a duel has just finished when the running duel is \<open>Ended\<close>,
  that a duel is underway otherwise. So \<open>startEvent\<close> returns one of the two messages
  when a duel is in the registry and starts the event when none is. A duel is in the
  registry once \<open>startEvent\<close> has started it and stays there while it is accepted,
  while weapons are chosen and through its settlement, which leaves it \<open>Ended\<close> and
  registered; it leaves the registry when it is cancelled (\<open>stopEvent\<close>) or when the
  cooldown callback has run.
\<close>

theorem one_duel_at_a_time:
  "checkForOngoingEvent this (Duel d) u
     = (False, if state d = Ended then msg_just_finished (username u)
               else msg_underway (username u))
   \<and> msg_just_finished (username u) \<noteq> [] \<and> msg_underway (username u) \<noteq> []
   \<and> (Duel d \<in> set evs
        \<longrightarrow> startEvent evs w u = Inl (msg_just_finished (username u))
            \<or> startEvent evs w u = Inl (msg_underway (username u)))
   \<and> ((\<forall>d. Duel d \<notin> set evs) \<longrightarrow> (\<exists>r. startEvent evs w u = Inr r))
   \<and> (\<forall>w'. startEvent evs w u = Inr (Inr w') \<longrightarrow> running w')
   \<and> (running w0 \<longrightarrow> Duel (duel w0) \<in> set (registry w0 others))
   \<and> (\<not> running w0 \<longrightarrow> registry w0 others = others)
   \<and> running (fst (accept w0 a)) = running w0
   \<and> running (WeaponCommand_execute w0 c a s) = running w0
   \<and> (\<forall>w'. startDuel w0 = Inr w' \<longrightarrow> state (duel w') = Ended \<and> running w' = running w0)
   \<and> \<not> running (stopEvent w0)
   \<and> \<not> running (cooldown_resume w0)"
proof (intro conjI impI allI)
  show "checkForOngoingEvent this (Duel d) u
          = (False, if state d = Ended then msg_just_finished (username u)
                    else msg_underway (username u))"
    by (simp add: checkForOngoingEvent_def)
  show "msg_just_finished (username u) \<noteq> []"
    by (simp add: msg_just_finished_def)
  show "msg_underway (username u) \<noteq> []"
    by (simp add: msg_underway_def)
  show "startEvent evs w u = Inl (msg_just_finished (username u))
        \<or> startEvent evs w u = Inl (msg_underway (username u))" if "Duel d \<in> set evs"
    using first_veto_duel [OF that, of "duel w" u] by (auto simp: startEvent_def)
  show "\<exists>r. startEvent evs w u = Inr r" if "\<forall>d. Duel d \<notin> set evs"
    using first_veto_none [OF that, of "duel w" u] by (simp add: startEvent_def)
  show "running w'" if "startEvent evs w u = Inr (Inr w')" for w'
    using that by (rule startEvent_running)
  show "Duel (duel w0) \<in> set (registry w0 others)" if "running w0"
    using that by (simp add: registry_def getEvents_def)
  show "registry w0 others = others" if "\<not> running w0"
    using that by (simp add: registry_def getEvents_def)
  show "running (fst (accept w0 a)) = running w0"
    by (rule accept_running)
  show "running (WeaponCommand_execute w0 c a s) = running w0"
    by (rule WeaponCommand_execute_running)
  show "state (duel w') = Ended" if "startDuel w0 = Inr w'" for w'
    using startDuel_ended [OF that] by simp
  show "running w' = running w0" if "startDuel w0 = Inr w'" for w'
    using startDuel_ended [OF that] by simp
  show "\<not> running (stopEvent w0)"
    by (simp add: stopEvent_def)
  show "\<not> running (cooldown_resume w0)"
    by (simp add: cooldown_resume_def)
qed

theorem one_duel_at_a_time_witness:
  "startEvent []
     (constructed (new_DuelEvent alice (Some bob) 50)
        ((\<lambda>_. 0)(''alice'' := 200, ''bob'' := 200))) alice
     = Inr (Inr duel_50)
   \<and> running duel_50
   \<and> startEvent (registry duel_50 []) open_duel_20 alice
       = Inl (msg_underway (username alice))
   \<and> running paper_paper
   \<and> \<not> threw (startDuel paper_paper)
   \<and> state (duel (world_after (startDuel paper_paper))) = Ended
   \<and> running (world_after (startDuel paper_paper))
   \<and> Duel (duel (world_after (startDuel paper_paper)))
        \<in> set (registry (world_after (startDuel paper_paper)) [])
   \<and> startEvent (registry (world_after (startDuel paper_paper)) []) open_duel_20 alice
       = Inl (msg_just_finished (username alice))
   \<and> state (duel accepted_50) = BoardingCompleted
   \<and> startEvent (registry accepted_50 []) open_duel_20 alice
       = Inl (msg_underway (username alice))
   \<and> registry (cooldown_resume (world_after (startDuel paper_paper))) [] = []
   \<and> (\<exists>r. startEvent (registry (cooldown_resume (world_after (startDuel paper_paper))) [])
             open_duel_20 alice = Inr r)"
proof -
  let ?p0 = "\<lparr>user = alice, participant_wager = 50, accepted = True, weapon = Paper\<rparr>"
  let ?p1 = "\<lparr>user = bob, participant_wager = 50, accepted = True, weapon = Paper\<rparr>"
  have ps: "participants (duel paper_paper) = ?p0 # ?p1 # []"
    by (simp add: paper_paper_eval)
  obtain w1 where s: "startDuel paper_paper = Inr w1"
    using startDuel_tie_balances [OF ps] by auto
  have rp: "running paper_paper"
    by (simp add: paper_paper_eval)
  have st: "startEvent []
              (constructed (new_DuelEvent alice (Some bob) 50)
                 ((\<lambda>_. 0)(''alice'' := 200, ''bob'' := 200))) alice
            = Inr (Inr duel_50)"
    by (simp add: duel_50_eval constructed_def startEvent_def start_def this_sendMessage_def
          to_channel_def DuelParticipationPeriod_def example_defs)
  have r0: "running duel_50"
    using one_duel_at_a_time [where evs = "[]"] st by blast
  have v0: "startEvent (registry duel_50 []) open_duel_20 alice
              = Inl (msg_underway (username alice))"
    using r0
    by (simp add: startEvent_def registry_def getEvents_def checkForOngoingEvent_def
          duel_50_eval)
  have e: "state (duel w1) = Ended" and r1: "running w1"
    using one_duel_at_a_time [where ?w0.0 = paper_paper] s rp by auto
  have m: "Duel (duel w1) \<in> set (registry w1 [])"
    using one_duel_at_a_time [where ?w0.0 = w1 and others = "[]"] r1 by blast
  have v1: "startEvent (registry w1 []) open_duel_20 alice = Inl (msg_just_finished (username alice))"
    using e r1
    by (simp add: startEvent_def registry_def getEvents_def checkForOngoingEvent_def)
  have a: "state (duel accepted_50) = BoardingCompleted"
    by (simp add: accepted_50_eval)
  have v2: "startEvent (registry accepted_50 []) open_duel_20 alice
              = Inl (msg_underway (username alice))"
    by (simp add: startEvent_def registry_def getEvents_def checkForOngoingEvent_def
          accepted_50_eval)
  have g: "registry (cooldown_resume w1) [] = []"
    using one_duel_at_a_time [where ?w0.0 = "cooldown_resume w1" and others = "[]"]
      one_duel_at_a_time [where ?w0.0 = w1]
    by blast
  have n: "\<exists>r. startEvent (registry (cooldown_resume w1) []) open_duel_20 alice = Inr r"
    using one_duel_at_a_time [where evs = "[]" and w = open_duel_20 and u = alice] g
    by simp
  show ?thesis
    using st r0 v0 rp s e r1 m v1 a v2 g n by (simp add: threw_def world_after_def)
qed

subsection \<open>Delayed callbacks\<close>

lemma accept_timers:
  "timers (fst (accept w u))
     = (if wager (duel w) \<le> points u then timers w @ [WeaponChoiceTimer (60 * 1000)]
        else timers w)"
  by (auto simp: accept_def canAccept_def Let_def waitForWeaponChoice_def split: option.splits)

lemma startDuel_timers:
  assumes "startDuel w = Inr w'"
  shows "timers w' = timers w @ [CooldownTimer DuelCooldownPeriod]"
  using assms
  by (auto simp: startDuel_def Let_def stopEventStartCooldown_def this_sendMessage_def
        split: list.splits if_splits DuelWeapon.splits)

lemma resume_timers:
  assumes "waitForWeaponChoice_resume w = Inr w'"
  shows "timers w' = timers w \<and> \<not> running w'
         \<or> timers w' = timers w @ [CooldownTimer DuelCooldownPeriod] \<and> running w' = running w"
  using assms startDuel_timers startDuel_ended
  by (auto simp: waitForWeaponChoice_resume_def returnChews_def this_sendMessage_def stopEvent_def
        split: list.splits if_splits)

lemma participationPeriodEnded_timers:
  "timers (world_after (participationPeriodEnded w)) = timers w"
  by (auto simp: participationPeriodEnded_def world_after_def stopEvent_def this_sendMessage_def
        split: list.splits)

lemma chooseWeapon_timers: "timers (chooseWeapon w c u wp) = timers w"
  by (auto simp: chooseWeapon_def sendWhisper_def setWeapon_def
        split: list.splits option.splits prod.splits)

lemma WeaponCommand_execute_timers: "timers (WeaponCommand_execute w c u s) = timers w"
  by (auto simp: WeaponCommand_execute_def chooseWeapon_timers Let_def split: option.splits)

lemma cooldown_resume_timers: "timers (cooldown_resume w) = timers w"
  by (simp add: cooldown_resume_def onCooldownComplete_def this_sendMessage_def)

lemma start_timers:
  assumes "start w = Inr w'"
  shows "timers w' = timers w"
  using assms by (auto simp: start_def this_sendMessage_def split: list.splits)

lemma startEvent_timers:
  assumes "startEvent evs w u = Inr (Inr w')"
  shows "timers w' = timers w @ [ParticipationTimer DuelParticipationPeriod]"
  using assms start_timers [of "w\<lparr>running := True\<rparr>"]
  by (auto simp: startEvent_def split: option.splits sum.splits)

lemma resume_cancels:
  assumes "participants (duel w) = p0 # p1 # rest"
      and "weapon p0 = NoWeapon \<or> weapon p1 = NoWeapon"
  shows "\<exists>w'. waitForWeaponChoice_resume w = Inr w'
           \<and> state (duel w') = Ended
           \<and> balances w'
               = changeUsersPoints (map user (participants (duel w))) (wager (duel w))
                   (balances w)
           \<and> timers w' = timers w \<and> \<not> running w'
           \<and> (\<exists>m. chat w' = chat w @ sendMessage (duel w) m)
           \<and> whispers w' = whispers w"
  using assms
  by (auto simp: waitForWeaponChoice_resume_def returnChews_def this_sendMessage_def
        stopEvent_def)

lemma startDuel_returns:
  assumes "participants (duel w) = p0 # p1 # rest"
  shows "\<exists>w'. startDuel w = Inr w'"
  using assms by (simp add: startDuel_def Let_def split: prod.splits)

lemma startDuel_throws:
  assumes "startDuel w = Inl (e, w')"
  shows "w' = w"
  using assms by (auto simp: startDuel_def Let_def split: list.splits if_splits prod.splits)

lemma resume_throws:
  assumes "waitForWeaponChoice_resume w = Inl (e, w')"
  shows "w' = w \<and> length (participants (duel w)) < 2"
proof (cases "participants (duel w)")
  case Nil
  with assms show ?thesis by (simp add: waitForWeaponChoice_resume_def)
next
  case (Cons p0 ps)
  show ?thesis
  proof (cases ps)
    case Nil
    with assms Cons show ?thesis
      by (auto simp: waitForWeaponChoice_resume_def split: if_splits)
  next
    case (Cons p1 rest)
    with assms \<open>participants (duel w) = p0 # ps\<close>
    have "startDuel w = Inl (e, w')"
      by (auto simp: waitForWeaponChoice_resume_def split: if_splits)
    moreover obtain w1 where "startDuel w = Inr w1"
      using startDuel_returns [of w p0 p1 rest] \<open>participants (duel w) = p0 # ps\<close> Cons
      by auto
    ultimately show ?thesis by simp
  qed
qed

text \<open>
  C8, as the code has it. Three kinds of one-shot delayed callback belong to a duel: the
  participation timer the event service begins when the event starts (60000 ms), a
  weapon-choice callback of 60000 ms that every successful \<open>accept\<close> leaves pending,
  and the cooldown timer begun at settlement (120000 ms). A callback is taken from the
  pending ones when it fires, and one that is not pending does not fire. The
  weapon-choice callback is the one that ends an accepted duel of two participants, so
  it returns and leaves the duel \<open>Ended\<close>: when the first or the second participant holds
  no weapon it cancels the duel, which pays the wager back to every participant, leaves
  the registry and leaves no callback pending; when both hold a weapon it is the
  settlement, which begins the cooldown timer and leaves the duel registered. A
  weapon-choice callback that throws leaves everything as it was, and throws only where
  the duel has fewer than two participants. A rejected \<open>accept\<close>,
  \<open>participationPeriodEnded\<close>, a weapon command and the cooldown callback leave no
  callback pending.
\<close>

theorem delayed_callbacks:
  "timers (fst (accept w u))
     = (if wager (duel w) \<le> points u then timers w @ [WeaponChoiceTimer 60000]
        else timers w)
   \<and> (\<forall>p0 p1 rest. participants (duel w) = p0 # p1 # rest
          \<longrightarrow> (\<exists>w'. waitForWeaponChoice_resume w = Inr w'
                  \<and> state (duel w') = Ended
                  \<and> (weapon p0 = NoWeapon \<or> weapon p1 = NoWeapon
                       \<longrightarrow> balances w'
                             = changeUsersPoints (map user (participants (duel w)))
                                 (wager (duel w)) (balances w)
                           \<and> timers w' = timers w \<and> \<not> running w')
                  \<and> (weapon p0 \<noteq> NoWeapon \<and> weapon p1 \<noteq> NoWeapon
                       \<longrightarrow> waitForWeaponChoice_resume w = startDuel w
                           \<and> timers w' = timers w @ [CooldownTimer 120000]
                           \<and> running w' = running w)))
   \<and> (\<forall>e w'. waitForWeaponChoice_resume w = Inl (e, w')
          \<longrightarrow> w' = w \<and> length (participants (duel w)) < 2)
   \<and> (\<forall>w'. waitForWeaponChoice_resume w = Inr w'
          \<longrightarrow> state (duel w') = Ended
              \<and> (timers w' = timers w \<and> \<not> running w'
                  \<or> timers w' = timers w @ [CooldownTimer 120000] \<and> running w' = running w))
   \<and> (\<forall>w'. startDuel w = Inr w' \<longrightarrow> timers w' = timers w @ [CooldownTimer 120000])
   \<and> timers (world_after (participationPeriodEnded w)) = timers w
   \<and> timers (WeaponCommand_execute w c u s) = timers w
   \<and> timers (cooldown_resume w) = timers w
   \<and> (\<forall>w'. startEvent evs w u = Inr (Inr w')
          \<longrightarrow> timers w' = timers w @ [ParticipationTimer 60000])
   \<and> (t \<in> set (timers w)
        \<longrightarrow> step w (Fire t) = resume t (w\<lparr>timers := remove1 t (timers w)\<rparr>))
   \<and> (t \<notin> set (timers w) \<longrightarrow> step w (Fire t) = Inr w)
   \<and> resume (WeaponChoiceTimer n) w = waitForWeaponChoice_resume w"
proof -
  have p: "DuelParticipationPeriod = 60000" and c: "DuelCooldownPeriod = 120000"
    by (simp_all add: DuelParticipationPeriod_def DuelCooldownPeriod_def)
  have two:
    "\<exists>w'. waitForWeaponChoice_resume w = Inr w'
        \<and> state (duel w') = Ended
        \<and> (weapon p0 = NoWeapon \<or> weapon p1 = NoWeapon
             \<longrightarrow> balances w'
                   = changeUsersPoints (map user (participants (duel w)))
                       (wager (duel w)) (balances w)
                 \<and> timers w' = timers w \<and> \<not> running w')
        \<and> (weapon p0 \<noteq> NoWeapon \<and> weapon p1 \<noteq> NoWeapon
             \<longrightarrow> waitForWeaponChoice_resume w = startDuel w
                 \<and> timers w' = timers w @ [CooldownTimer 120000]
                 \<and> running w' = running w)"
    if ps: "participants (duel w) = p0 # p1 # rest" for p0 p1 rest
  proof (cases "weapon p0 = NoWeapon \<or> weapon p1 = NoWeapon")
    case True
    from resume_cancels [OF ps True] True show ?thesis by blast
  next
    case False
    then have nn: "weapon p0 \<noteq> NoWeapon" "weapon p1 \<noteq> NoWeapon"
      by simp_all
    have r: "waitForWeaponChoice_resume w = startDuel w"
      by (rule resume_settles [OF ps nn])
    obtain w' where s: "startDuel w = Inr w'"
      using startDuel_returns [OF ps] by blast
    show ?thesis
      using nn r s startDuel_ended [OF s] startDuel_timers [OF s] unfolding c by simp
  qed
  have rest:
    "timers (fst (accept w u))
       = (if wager (duel w) \<le> points u then timers w @ [WeaponChoiceTimer 60000]
          else timers w)
     \<and> (\<forall>w'. waitForWeaponChoice_resume w = Inr w'
            \<longrightarrow> state (duel w') = Ended
                \<and> (timers w' = timers w \<and> \<not> running w'
                    \<or> timers w' = timers w @ [CooldownTimer 120000] \<and> running w' = running w))
     \<and> (\<forall>w'. startDuel w = Inr w' \<longrightarrow> timers w' = timers w @ [CooldownTimer 120000])
     \<and> timers (world_after (participationPeriodEnded w)) = timers w
     \<and> timers (WeaponCommand_execute w c u s) = timers w
     \<and> timers (cooldown_resume w) = timers w
     \<and> (\<forall>w'. startEvent evs w u = Inr (Inr w')
            \<longrightarrow> timers w' = timers w @ [ParticipationTimer 60000])"
    using accept_timers [of w u] resume_timers [of w] resume_ended [of w]
      startDuel_timers [of w] participationPeriodEnded_timers [of w]
      WeaponCommand_execute_timers [of w c u s] cooldown_resume_timers [of w]
      startEvent_timers [of evs w u]
    unfolding p c by simp
  have thr: "\<forall>e w'. waitForWeaponChoice_resume w = Inl (e, w')
               \<longrightarrow> w' = w \<and> length (participants (duel w)) < 2"
    using resume_throws [of w] by blast
  have fire:
    "(t \<in> set (timers w)
        \<longrightarrow> step w (Fire t) = resume t (w\<lparr>timers := remove1 t (timers w)\<rparr>))
     \<and> (t \<notin> set (timers w) \<longrightarrow> step w (Fire t) = Inr w)
     \<and> resume (WeaponChoiceTimer n) w = waitForWeaponChoice_resume w"
    by (simp add: step_def resume_def)
  show ?thesis
    using two rest thr fire by blast
qed

theorem delayed_callbacks_witness:
  "wager (duel duel_50) \<le> points bob
   \<and> timers duel_50 = [ParticipationTimer 60000]
   \<and> timers (fst (accept duel_50 bob)) = [ParticipationTimer 60000, WeaponChoiceTimer 60000]
   \<and> map weapon (participants (duel accepted_50)) = [NoWeapon, NoWeapon]
   \<and> balances accepted_50 ''alice'' = 150
   \<and> balances accepted_50 ''bob'' = 150
   \<and> running accepted_50
   \<and> \<not> threw (waitForWeaponChoice_resume accepted_50)
   \<and> state (duel (world_after (waitForWeaponChoice_resume accepted_50))) = Ended
   \<and> balances (world_after (waitForWeaponChoice_resume accepted_50)) ''alice'' = 200
   \<and> balances (world_after (waitForWeaponChoice_resume accepted_50)) ''bob'' = 200
   \<and> timers (world_after (waitForWeaponChoice_resume accepted_50)) = timers accepted_50
   \<and> \<not> running (world_after (waitForWeaponChoice_resume accepted_50))
   \<and> map weapon (participants (duel paper_paper)) = [Paper, Paper]
   \<and> waitForWeaponChoice_resume paper_paper = startDuel paper_paper
   \<and> \<not> threw (startDuel paper_paper)
   \<and> state (duel (world_after (startDuel paper_paper))) = Ended
   \<and> timers (world_after (startDuel paper_paper))
       = timers paper_paper @ [CooldownTimer 120000]
   \<and> running (world_after (startDuel paper_paper))
   \<and> WeaponChoiceTimer 60000 \<in> set (timers accepted_50)
   \<and> step accepted_50 (Fire (WeaponChoiceTimer 60000))
       = waitForWeaponChoice_resume (accepted_50\<lparr>timers := [ParticipationTimer 60000]\<rparr>)"
proof -
  let ?a0 = "\<lparr>user = alice, participant_wager = 50, accepted = True, weapon = NoWeapon\<rparr>"
  let ?a1 = "\<lparr>user = bob, participant_wager = 50, accepted = True, weapon = NoWeapon\<rparr>"
  let ?p0 = "\<lparr>user = alice, participant_wager = 50, accepted = True, weapon = Paper\<rparr>"
  let ?p1 = "\<lparr>user = bob, participant_wager = 50, accepted = True, weapon = Paper\<rparr>"
  have ok: "wager (duel duel_50) \<le> points bob"
    by (simp add: duel_50_eval example_defs)
  have t0: "timers duel_50 = [ParticipationTimer 60000]"
    by (simp add: duel_50_eval example_defs)
  have a: "timers (fst (accept duel_50 bob))
             = [ParticipationTimer 60000, WeaponChoiceTimer 60000]"
    using delayed_callbacks [of duel_50 bob] ok t0 by simp
  have as: "participants (duel accepted_50) = ?a0 # ?a1 # []"
    by (simp add: accepted_50_eval)
  have ab: "balances accepted_50 ''alice'' = 150" "balances accepted_50 ''bob'' = 150"
    by (simp_all add: accepted_50_eval duel_50_eval changeUserPoints_def alice_def bob_def)
  have ar: "running accepted_50"
    by (simp add: accepted_50_eval)
  have aw: "wager (duel accepted_50) = 50"
    by (simp add: accepted_50_eval)
  obtain w0 where c: "waitForWeaponChoice_resume accepted_50 = Inr w0"
    and c1: "state (duel w0) = Ended"
    and c2: "balances w0
               = changeUsersPoints (map user (participants (duel accepted_50)))
                   (wager (duel accepted_50)) (balances accepted_50)"
    and c3: "timers w0 = timers accepted_50" and c4: "\<not> running w0"
  proof -
    have n: "weapon ?a0 = NoWeapon \<or> weapon ?a1 = NoWeapon"
      by simp
    from delayed_callbacks [of accepted_50, THEN conjunct2, THEN conjunct1, rule_format, OF as]
      n that
    show ?thesis by blast
  qed
  have cb: "balances w0 ''alice'' = 200" "balances w0 ''bob'' = 200"
    unfolding c2
    by (simp_all add: accepted_50_eval duel_50_eval changeUserPoints_def alice_def bob_def)
  have ps: "participants (duel paper_paper) = ?p0 # ?p1 # []"
    by (simp add: paper_paper_eval)
  have pr: "running paper_paper"
    by (simp add: paper_paper_eval)
  obtain w1 where s0: "waitForWeaponChoice_resume paper_paper = Inr w1"
    and r: "waitForWeaponChoice_resume paper_paper = startDuel paper_paper"
    and s1: "state (duel w1) = Ended"
    and t1: "timers w1 = timers paper_paper @ [CooldownTimer 120000]"
    and s2: "running w1 = running paper_paper"
  proof -
    have n: "weapon ?p0 \<noteq> NoWeapon \<and> weapon ?p1 \<noteq> NoWeapon"
      by simp
    from delayed_callbacks [of paper_paper, THEN conjunct2, THEN conjunct1, rule_format, OF ps]
      n that
    show ?thesis by blast
  qed
  have s: "startDuel paper_paper = Inr w1"
    using s0 r by simp
  have m: "WeaponChoiceTimer 60000 \<in> set (timers accepted_50)"
    by (simp add: accepted_50_eval)
  have f: "step accepted_50 (Fire (WeaponChoiceTimer 60000))
             = waitForWeaponChoice_resume (accepted_50\<lparr>timers := [ParticipationTimer 60000]\<rparr>)"
    using delayed_callbacks
      [where w = accepted_50 and t = "WeaponChoiceTimer 60000"]
      delayed_callbacks
      [where w = "accepted_50\<lparr>timers := [ParticipationTimer 60000]\<rparr>" and n = 60000]
      m
    by (simp add: accepted_50_eval)
  show ?thesis
    using ok t0 a as ab ar c c1 cb c3 c4 ps r s s1 t1 s2 pr m f
    by (simp add: threw_def world_after_def)
qed

text \<open>
  C8 as the claim states it fails: bob's \<open>accept\<close> of the duel for 50, whose
  participation timer is pending, leaves a second delayed callback pending that is
  neither the participation timer nor the cooldown timer, and that callback, resumed with
  no weapon chosen, takes the duel from \<open>BoardingCompleted\<close> to \<open>Ended\<close>.
\<close>

theorem callback_at_acceptance_counterexample:
  "timers duel_50 = [ParticipationTimer 60000]
   \<and> timers accepted_50 = [ParticipationTimer 60000, WeaponChoiceTimer 60000]
   \<and> state (duel accepted_50) = BoardingCompleted
   \<and> \<not> threw (resume (WeaponChoiceTimer 60000) accepted_50)
   \<and> state (duel (world_after (resume (WeaponChoiceTimer 60000) accepted_50))) = Ended"
  by (simp add: resume_def waitForWeaponChoice_resume_def accepted_50_eval returnChews_def
        this_sendMessage_def stopEvent_def threw_def world_after_def duel_50_eval)

subsection \<open>Messages\<close>















lemma length_update_first [simp]: "length (update_first P f ps) = length ps"
  by (induction ps) auto












subsection \<open>Escrow\<close>

lemma returnChews_balances:
  "balances (returnChews (this_sendMessage m (stopEvent w)))
     = changeUsersPoints (map user (participants (duel w))) (wager (duel w)) (balances w)"
  by (simp add: returnChews_def this_sendMessage_def stopEvent_def)

text \<open>
  What holds of one acceptance and the weapon-choice callback it leaves pending: where the
  balances the callback finds are balances \<open>b0\<close> less the wager escrowed from each of the
  two participants, the two balances sum, once the callback has run, to their sum in
  \<open>b0\<close>, less twice the rounded tenth of the wager when the duel is settled as a tie.
\<close>

lemma escrow_conservation_one_acceptance:
  assumes "participants (duel w) = [p0, p1]"
      and "username (user p0) \<noteq> username (user p1)"
      and "balances w = changeUsersPoints [user p0, user p1] (- wager (duel w)) b0"
      and "waitForWeaponChoice_resume w = Inr w'"
  shows "balances w' (username (user p0)) + balances w' (username (user p1))
           = b0 (username (user p0)) + b0 (username (user p1))
             - (if weapon p0 = weapon p1 \<and> weapon p0 \<noteq> NoWeapon
                then 2 * Math_round_tenth (wager (duel w)) else 0)"
proof (cases "weapon p0 = NoWeapon \<or> weapon p1 = NoWeapon")
  case True
  then have "balances w'
               = changeUsersPoints (map user (participants (duel w))) (wager (duel w)) (balances w)"
    using assms(1,4)
    by (auto simp: waitForWeaponChoice_resume_def returnChews_balances split: if_splits)
  then show ?thesis
    using assms(1,2,3) True by (auto simp: changeUserPoints_def)
next
  case False
  then have nn: "weapon p0 \<noteq> NoWeapon" "weapon p1 \<noteq> NoWeapon"
    by simp_all
  have s: "startDuel w = Inr w'"
    using assms(4) resume_settles [OF assms(1) nn] by simp
  show ?thesis
  proof (cases "weapon p0 = weapon p1")
    case True
    then show ?thesis
      using startDuel_tie_balances [OF assms(1) True] s assms(1,2,3) nn
      by (auto simp: changeUserPoints_def)
  next
    case d: False
    then have "beats (weapon p0) (weapon p1) \<or> beats (weapon p1) (weapon p0)"
      using nn by (simp add: beats_iff)
    then show ?thesis
    proof
      assume b: "beats (weapon p0) (weapon p1)"
      show ?thesis
        using startDuel_win_balances [OF assms(1) b] s assms(2,3) d
        by (auto simp: changeUserPoints_def)
    next
      assume b: "beats (weapon p1) (weapon p0)"
      show ?thesis
        using startDuel_lose_balances [OF assms(1) b] s assms(2,3) d
        by (auto simp: changeUserPoints_def)
    qed
  qed
qed

lemmas run_defs =
  step_def resume_def waitForWeaponChoice_resume_def startDuel_def stopEvent_def
  stopEventStartCooldown_def returnChews_def participationPeriodEnded_def
  cooldown_resume_def onCooldownComplete_def Math_round_tenth_small DuelCooldownPeriod_def

text \<open>
  C1 fails on the code: nothing keeps a user from accepting a duel he has accepted.
  bob accepts the duel for 50 twice; the wager is escrowed from alice and from bob twice,
  two weapon-choice callbacks are left pending, and each settles the tie of paper against
  paper. The two held 400 chews between them and hold 380 in the end: the tie has cost
  four times the rounded tenth of the wager, not twice. With one acceptance they hold 390.
\<close>

theorem double_acceptance_doubles_tie_penalty:
  "balances duel_50 ''alice'' + balances duel_50 ''bob'' = 400
   \<and> Math_round_tenth (wager (duel duel_50)) = 5
   \<and> \<not> threw (run duel_50 double_accept)
   \<and> state (duel (world_after (run duel_50 double_accept))) = Ended
   \<and> balances (world_after (run duel_50 double_accept)) ''alice''
       + balances (world_after (run duel_50 double_accept)) ''bob'' = 380
   \<and> \<not> threw (run duel_50 single_accept)
   \<and> balances (world_after (run duel_50 single_accept)) ''alice''
       + balances (world_after (run duel_50 single_accept)) ''bob'' = 390"
  by (simp add: double_accept_def single_accept_def duel_50_eval run_defs command_defs
        example_defs duel_defs threw_def world_after_def)

text \<open>
  C3 fails on the code, through the defect of C1. bob accepts the duel for 25 twice and
  both whisper paper. After the two acceptances alice and bob, who held 200 each, hold
  150 each: the wager is in escrow twice. Each of the two weapon-choice callbacks settles
  the tie and pays each of them \<open>25 - round (25 * 0.1) = 25 - 3 = 22\<close>, as the claim has
  it of a settlement; but in the end each holds 194, a net loss of 6, twice the rounded
  tenth of the wager, and not the rounded tenth the claim has. With one acceptance each
  holds 197.
\<close>

theorem double_acceptance_doubles_tie_loss:
  "balances duel_25 ''alice'' = 200 \<and> balances duel_25 ''bob'' = 200
   \<and> wager (duel duel_25) = 25
   \<and> Math_round_tenth (wager (duel duel_25)) = 3
   \<and> balances (world_after (run duel_25 (take 5 double_accept_25))) ''alice'' = 150
   \<and> balances (world_after (run duel_25 (take 5 double_accept_25))) ''bob'' = 150
   \<and> map weapon (participants (duel (world_after (run duel_25 (take 5 double_accept_25)))))
       = [Paper, Paper]
   \<and> balances (world_after (run duel_25 (take 6 double_accept_25))) ''alice'' = 172
   \<and> balances (world_after (run duel_25 (take 6 double_accept_25))) ''bob'' = 172
   \<and> \<not> threw (run duel_25 double_accept_25)
   \<and> state (duel (world_after (run duel_25 double_accept_25))) = Ended
   \<and> balances (world_after (run duel_25 double_accept_25)) ''alice'' = 194
   \<and> balances (world_after (run duel_25 double_accept_25)) ''bob'' = 194
   \<and> \<not> threw (run duel_25 single_accept_25)
   \<and> balances (world_after (run duel_25 single_accept_25)) ''alice'' = 197
   \<and> balances (world_after (run duel_25 single_accept_25)) ''bob'' = 197"
  by (simp add: double_accept_25_def single_accept_25_def duel_25_eval run_defs command_defs
        example_defs duel_defs threw_def world_after_def)

text \<open>
  C4 fails on the code, through the defect of C1. bob accepts the duel for 50 twice,
  alice whispers rock and bob scissors. After the two acceptances alice and bob, who held
  200 each, hold 100 each. Each of the two weapon-choice callbacks settles the duel and
  pays alice, whose rock beats bob's scissors, twice the wager and bob nothing, as the
  claim has it of a settlement; but in the end alice holds 300 and bob 100, a net gain
  and a net loss of twice the wager, and not of the wager as the claim has. With one
  acceptance alice holds 250 and bob 150.
\<close>

theorem double_acceptance_doubles_win_and_loss:
  "balances duel_50 ''alice'' = 200 \<and> balances duel_50 ''bob'' = 200
   \<and> wager (duel duel_50) = 50
   \<and> beats Rock Scissors
   \<and> balances (world_after (run duel_50 (take 5 double_accept_rock_scissors))) ''alice'' = 100
   \<and> balances (world_after (run duel_50 (take 5 double_accept_rock_scissors))) ''bob'' = 100
   \<and> map weapon
        (participants (duel (world_after (run duel_50 (take 5 double_accept_rock_scissors)))))
       = [Rock, Scissors]
   \<and> balances (world_after (run duel_50 (take 6 double_accept_rock_scissors))) ''alice'' = 200
   \<and> balances (world_after (run duel_50 (take 6 double_accept_rock_scissors))) ''bob'' = 100
   \<and> \<not> threw (run duel_50 double_accept_rock_scissors)
   \<and> state (duel (world_after (run duel_50 double_accept_rock_scissors))) = Ended
   \<and> balances (world_after (run duel_50 double_accept_rock_scissors)) ''alice'' = 300
   \<and> balances (world_after (run duel_50 double_accept_rock_scissors)) ''bob'' = 100
   \<and> \<not> threw (run duel_50 single_accept_rock_scissors)
   \<and> balances (world_after (run duel_50 single_accept_rock_scissors)) ''alice'' = 250
   \<and> balances (world_after (run duel_50 single_accept_rock_scissors)) ''bob'' = 150"
  by (simp add: double_accept_rock_scissors_def single_accept_rock_scissors_def duel_50_eval
        run_defs command_defs example_defs duel_defs threw_def world_after_def beats_def)

text \<open>
  Nor does anything keep the initiator of an open duel from accepting it herself. The
  duel then has one participant and is \<open>BoardingCompleted\<close>; the wager is escrowed from
  her, and both the weapon-choice callback, once she has whispered a weapon, and
  \<open>participationPeriodEnded\<close> stop at \<^verbatim>\<open>this.participants[1]\<close>: her wager is not
  returned, and the duel stays registered.
\<close>

lemma self_acceptance_strands_escrow:
  "threw (AcceptCommand_execute open_duel_20 alice)
   \<and> balances open_duel_20 ''alice'' = 200
   \<and> balances self_accepted ''alice'' = 180
   \<and> state (duel self_accepted) = BoardingCompleted
   \<and> map weapon (participants (duel self_accepted)) = [Rock]
   \<and> threw (resume (WeaponChoiceTimer 60000) self_accepted)
   \<and> threw (resume (ParticipationTimer 60000) self_accepted)
   \<and> world_after (resume (WeaponChoiceTimer 60000) self_accepted) = self_accepted
   \<and> world_after (resume (ParticipationTimer 60000) self_accepted) = self_accepted
   \<and> running self_accepted"
  by (simp add: self_accepted_def open_duel_20_eval run_defs command_defs example_defs
        duel_defs threw_def world_after_def)

end
